theory Spec2Isabelle
  imports Main "HOL-Library.Finite_Map"
begin

section \<open>The SQL the script issues, as syntax\<close>

text \<open>
  \<^verbatim>\<open>init_versioning_db.py\<close> sends a fixed sequence of SQL strings to a PostgreSQL server.
  Each string is represented by the statements it parses to; names, column order,
  constraint order and literals are those of the source text. Emoji in log messages
  are left out (the theory is ASCII).
\<close>

type_synonym name = string

datatype val = Null | Txt string | Num int | Boolean bool | Stamp

datatype coltype =
  UUID | TEXT | VARCHAR nat | INTEGER | BIGINT | SERIAL | BIGSERIAL | JSON | TIMESTAMPTZ | BOOLEAN

text \<open>Boolean expressions over the columns of one row, as far as the script uses them.\<close>

datatype cond =
    IsNotNull name
  | NotEqual name val
  | InList name "val list"
  | And cond cond
  | Or cond cond

datatype dflt = Lit val | GenRandomUuid | CurrentTimestamp

datatype action = NoAction | Cascade

datatype colcon =
    PrimaryKey
  | NotNull
  | Unique
  | Default dflt
  | Check cond
  | References name name action

datatype tabcon =
    UniqueCols "name list"
  | ForeignKey "name list" name "name list" action
  | Constraint name cond

type_synonym column = "name \<times> coltype \<times> colcon list"

type_synonym colref = "name \<times> name"

datatype query =
  SelectDistinct "colref list" "name \<times> name" "(name \<times> name \<times> colref \<times> colref) list"

datatype rowref = OLD name | Of name name

datatype plbody =
    AssignNewReturnNew name dflt
  | DeleteUsingReturnNull "name \<times> name" "name \<times> name" "(rowref \<times> rowref) list"

datatype timing = BEFORE | AFTER

datatype event = UPDATE | DELETE

datatype stmt =
    CreateExtensionIfNotExists name
  | DropTableIfExistsCascade name
  | CreateTable name "column list" "tabcon list"
  | CreateIndex bool name name "name list" "cond option"
  | CreateOrReplaceView name query
  | CreateOrReplaceFunction name plbody
  | CreateTrigger name timing event name name
  | DropTriggerIfExists name name
  | InsertOnConflictDoNothing name "name list" "val list list" name

text \<open>One SQL string handed to \<^verbatim>\<open>cursor.execute\<close>: the statements it contains, in order.\<close>

type_synonym sql = "stmt list"

subsection \<open>Table definitions\<close>

definition tenants_sql :: sql where
  "tenants_sql = [CreateTable ''tenants''
     [(''tenant_id'', UUID, [PrimaryKey, Default GenRandomUuid]),
      (''tenant_name'', TEXT, [NotNull]),
      (''tenant_type'', TEXT, [NotNull, Check (InList ''tenant_type'' [Txt ''PERSONAL'', Txt ''ORGANIZATION''])]),
      (''tenant_state'', TEXT, [NotNull, Default (Lit (Txt ''ACTIVE'')),
          Check (InList ''tenant_state'' [Txt ''ACTIVE'', Txt ''PENDING''])]),
      (''primary_domain'', TEXT, []),
      (''created_at'', TIMESTAMPTZ, [Default CurrentTimestamp, NotNull]),
      (''updated_at'', TIMESTAMPTZ, [Default CurrentTimestamp, NotNull])]
     []]"

definition requirement_labels_sql :: sql where
  "requirement_labels_sql = [CreateTable ''requirement_labels''
     [(''label_id'', SERIAL, [PrimaryKey]),
      (''tenant_id'', UUID, [NotNull, References ''tenants'' ''tenant_id'' Cascade]),
      (''requirement_label'', VARCHAR 255, [NotNull]),
      (''created_at'', TIMESTAMPTZ, [Default CurrentTimestamp]),
      (''updated_at'', TIMESTAMPTZ, [Default CurrentTimestamp])]
     [UniqueCols [''tenant_id'', ''requirement_label'']]]"

definition requirements_sql :: sql where
  "requirements_sql = [CreateTable ''requirements''
     [(''requirement_id'', UUID, [NotNull]),
      (''row_id'', BIGSERIAL, [PrimaryKey]),
      (''tenant_id'', UUID, [NotNull, References ''tenants'' ''tenant_id'' Cascade]),
      (''label_id'', INTEGER, [NotNull, References ''requirement_labels'' ''label_id'' Cascade]),
      (''title'', TEXT, [NotNull]),
      (''version'', INTEGER, [NotNull]),
      (''raw_text'', TEXT, []),
      (''requirement_detail'', JSON, [NotNull]),
      (''testcase_generation_status'', TEXT,
         [Check (InList ''testcase_generation_status''
            [Txt ''NOT_STARTED'', Txt ''IN_PROGRESS'', Txt ''COMPLETED'', Txt ''FAILED'', Txt ''SYNCHED'']),
          Default (Lit (Txt ''NOT_STARTED''))]),
      (''created_at'', TIMESTAMPTZ, [Default CurrentTimestamp]),
      (''updated_at'', TIMESTAMPTZ, [Default CurrentTimestamp]),
      (''meta_info'', JSON, [])]
     [UniqueCols [''requirement_id'', ''version'']]]"

definition testcases_sql :: sql where
  "testcases_sql = [CreateTable ''testcases''
     [(''testcase_id'', UUID, [NotNull]),
      (''row_id'', BIGSERIAL, [PrimaryKey]),
      (''requirement_id'', UUID, [NotNull]),
      (''title'', TEXT, [NotNull]),
      (''steps'', JSON, [NotNull]),
      (''expected_result'', TEXT, [NotNull]),
      (''status'', TEXT, [NotNull]),
      (''sync_status'', TEXT,
         [Check (InList ''sync_status'' [Txt ''NEW'', Txt ''UPDATED'', Txt ''SYNCHED'']),
          Default (Lit (Txt ''NEW''))]),
      (''version'', INTEGER, [NotNull]),
      (''priority'', TEXT, [Default (Lit (Txt ''MEDIUM''))]),
      (''derived_from_row_id'', BIGINT, [References ''testcases'' ''row_id'' NoAction]),
      (''created_at'', TIMESTAMPTZ, [Default CurrentTimestamp]),
      (''updated_at'', TIMESTAMPTZ, [Default CurrentTimestamp]),
      (''meta_info'', JSON, [])]
     [UniqueCols [''testcase_id'', ''version'']]]"

definition sections_sql :: sql where
  "sections_sql = [CreateTable ''sections''
     [(''section_id'', UUID, [PrimaryKey, Default GenRandomUuid]),
      (''tenant_id'', UUID, [NotNull, References ''tenants'' ''tenant_id'' Cascade]),
      (''section_name'', TEXT, [NotNull]),
      (''source'', TEXT,
         [Check (InList ''source'' [Txt ''internal'', Txt ''testrail'', Txt ''zephyr'', Txt ''xray'']),
          Default (Lit (Txt ''internal''))]),
      (''external_section_id'', TEXT, []),
      (''external_suite_id'', TEXT, []),
      (''description'', TEXT, []),
      (''created_at'', TIMESTAMPTZ, [Default CurrentTimestamp])]
     [UniqueCols [''tenant_id'', ''section_name'']]]"

definition testcase_section_map_sql :: sql where
  "testcase_section_map_sql = [CreateTable ''testcase_section_map''
     [(''map_id'', SERIAL, [PrimaryKey]),
      (''testcase_id'', UUID, [NotNull]),
      (''section_id'', UUID, [NotNull, References ''sections'' ''section_id'' Cascade]),
      (''linked_at_version'', INTEGER, [NotNull]),
      (''created_at'', TIMESTAMPTZ, [Default CurrentTimestamp])]
     [UniqueCols [''testcase_id'', ''section_id'', ''linked_at_version''],
      ForeignKey [''testcase_id'', ''linked_at_version''] ''testcases'' [''testcase_id'', ''version''] Cascade]]"

definition tcm_testcase_mappings_sql :: sql where
  "tcm_testcase_mappings_sql = [CreateTable ''tcm_testcase_mappings''
     [(''mapping_id'', SERIAL, [PrimaryKey]),
      (''testcase_id'', UUID, [NotNull]),
      (''tcm_tool'', TEXT,
         [Check (InList ''tcm_tool'' [Txt ''testrail'', Txt ''zephyr'', Txt ''xray'']), NotNull]),
      (''external_testcase_id'', TEXT, [NotNull]),
      (''sync_direction'', TEXT,
         [Check (InList ''sync_direction'' [Txt ''PUSH'', Txt ''PULL'', Txt ''BIDIRECTIONAL'']),
          Default (Lit (Txt ''BIDIRECTIONAL''))]),
      (''last_synced_at'', TIMESTAMPTZ, [])]
     [UniqueCols [''testcase_id'', ''tcm_tool'']]]"

definition mapping_sql :: sql where
  "mapping_sql = [CreateTable ''requirement_testcase_map''
     [(''id'', SERIAL, [PrimaryKey]),
      (''requirement_id'', UUID, [NotNull]),
      (''requirement_version'', INTEGER, [NotNull]),
      (''testcase_id'', UUID, [NotNull]),
      (''testcase_version'', INTEGER, [NotNull]),
      (''linked_at_version'', INTEGER, [NotNull]),
      (''created_at'', TIMESTAMPTZ, [Default CurrentTimestamp])]
     [UniqueCols [''requirement_id'', ''requirement_version'', ''testcase_id'', ''testcase_version''],
      ForeignKey [''requirement_id'', ''requirement_version'']
        ''requirements'' [''requirement_id'', ''version''] Cascade,
      ForeignKey [''testcase_id'', ''testcase_version'']
        ''testcases'' [''testcase_id'', ''version''] Cascade]]"

definition users_sql :: sql where
  "users_sql = [CreateTable ''users''
     [(''user_id'', UUID, [PrimaryKey, Default GenRandomUuid]),
      (''tenant_id'', UUID, [NotNull, References ''tenants'' ''tenant_id'' Cascade]),
      (''email'', TEXT, [NotNull, Unique]),
      (''name'', TEXT, []),
      (''auth_provider'', TEXT, [NotNull, Default (Lit (Txt ''GOOGLE'')),
          Check (InList ''auth_provider''
            [Txt ''GOOGLE'', Txt ''LINKEDIN'', Txt ''LDAP'', Txt ''SAML'', Txt ''LOCAL'', Txt ''EMBEDDED''])]),
      (''external_subject'', TEXT, []),
      (''state'', TEXT, [NotNull, Default (Lit (Txt ''ACTIVE'')),
          Check (InList ''state'' [Txt ''ACTIVE'', Txt ''PENDING''])]),
      (''created_at'', TIMESTAMPTZ, [Default CurrentTimestamp, NotNull]),
      (''updated_at'', TIMESTAMPTZ, [Default CurrentTimestamp, NotNull])]
     []]"

definition tcm_integrations_sql :: sql where
  "tcm_integrations_sql = [CreateTable ''tcm_integrations''
     [(''integration_id'', UUID, [PrimaryKey, Default GenRandomUuid]),
      (''tenant_id'', UUID, [NotNull, References ''tenants'' ''tenant_id'' Cascade]),
      (''integrator_type'', VARCHAR 50, [NotNull,
          Check (InList ''integrator_type'' [Txt ''testrail'', Txt ''zephyr'', Txt ''xray''])]),
      (''name'', VARCHAR 255, [NotNull]),
      (''description'', TEXT, []),
      (''is_active'', BOOLEAN, [Default (Lit (Boolean True))]),
      (''created_at'', TIMESTAMPTZ, [Default CurrentTimestamp, NotNull]),
      (''updated_at'', TIMESTAMPTZ, [Default CurrentTimestamp, NotNull])]
     []]"

definition tcm_credentials_sql :: sql where
  "tcm_credentials_sql = [CreateTable ''tcm_credentials''
     [(''credential_id'', UUID, [PrimaryKey, Default GenRandomUuid]),
      (''integration_id'', UUID, [NotNull, References ''tcm_integrations'' ''integration_id'' Cascade]),
      (''base_url'', TEXT, [NotNull]),
      (''api_key'', TEXT, []),
      (''username'', TEXT, []),
      (''password'', TEXT, []),
      (''created_at'', TIMESTAMPTZ, [Default CurrentTimestamp, NotNull]),
      (''updated_at'', TIMESTAMPTZ, [Default CurrentTimestamp, NotNull])]
     [Constraint ''check_auth_method''
        (Or (And (IsNotNull ''api_key'') (NotEqual ''api_key'' (Txt '''')))
            (And (And (And (IsNotNull ''username'') (NotEqual ''username'' (Txt '''')))
                      (IsNotNull ''password''))
                 (NotEqual ''password'' (Txt ''''))))]]"

definition testrail_projects_sql :: sql where
  "testrail_projects_sql = [CreateTable ''testrail_projects''
     [(''project_id'', SERIAL, [PrimaryKey]),
      (''integration_id'', UUID, [NotNull, References ''tcm_integrations'' ''integration_id'' Cascade]),
      (''external_project_id'', INTEGER, [NotNull]),
      (''project_name'', VARCHAR 255, [NotNull]),
      (''project_description'', TEXT, []),
      (''project_mode'', INTEGER, [Default (Lit (Num 0))]),
      (''is_active'', BOOLEAN, [Default (Lit (Boolean True)), NotNull]),
      (''created_at'', TIMESTAMPTZ, [Default CurrentTimestamp, NotNull]),
      (''last_synced_at'', TIMESTAMPTZ, [Default CurrentTimestamp, NotNull])]
     []]"

definition testrail_suites_sql :: sql where
  "testrail_suites_sql = [CreateTable ''testrail_suites''
     [(''suite_id'', SERIAL, [PrimaryKey]),
      (''project_id'', INTEGER, [NotNull, References ''testrail_projects'' ''project_id'' Cascade]),
      (''external_suite_id'', INTEGER, [NotNull]),
      (''suite_name'', VARCHAR 255, [NotNull]),
      (''suite_description'', TEXT, []),
      (''is_active'', BOOLEAN, [Default (Lit (Boolean False)), NotNull]),
      (''created_at'', TIMESTAMPTZ, [Default CurrentTimestamp, NotNull]),
      (''last_synced_at'', TIMESTAMPTZ, [Default CurrentTimestamp, NotNull])]
     [UniqueCols [''project_id'', ''external_suite_id'']]]"

definition zephyr_projects_sql :: sql where
  "zephyr_projects_sql = [CreateTable ''zephyr_projects''
     [(''project_id'', SERIAL, [PrimaryKey]),
      (''integration_id'', UUID, [NotNull, References ''tcm_integrations'' ''integration_id'' Cascade]),
      (''project_key'', VARCHAR 50, [NotNull]),
      (''project_name'', VARCHAR 255, [NotNull]),
      (''project_lead'', VARCHAR 255, []),
      (''created_at'', TIMESTAMPTZ, [Default CurrentTimestamp, NotNull]),
      (''last_synced_at'', TIMESTAMPTZ, [Default CurrentTimestamp, NotNull])]
     []]"

definition xray_projects_sql :: sql where
  "xray_projects_sql = [CreateTable ''xray_projects''
     [(''project_id'', SERIAL, [PrimaryKey]),
      (''integration_id'', UUID, [NotNull, References ''tcm_integrations'' ''integration_id'' Cascade]),
      (''project_key'', VARCHAR 50, [NotNull]),
      (''project_name'', VARCHAR 255, [NotNull]),
      (''project_type'', VARCHAR 50, []),
      (''created_at'', TIMESTAMPTZ, [Default CurrentTimestamp, NotNull]),
      (''last_synced_at'', TIMESTAMPTZ, [Default CurrentTimestamp, NotNull])]
     []]"

definition traceability_matrix_sql :: sql where
  "traceability_matrix_sql = [CreateTable ''traceability_matrix''
     [(''matrix_id'', UUID, [PrimaryKey, Default GenRandomUuid]),
      (''requirement_id'', UUID, [NotNull]),
      (''version'', INTEGER, [NotNull]),
      (''status'', TEXT,
         [Check (InList ''status'' [Txt ''NOT_STARTED'', Txt ''IN_PROGRESS'', Txt ''COMPLETED'', Txt ''FAILED'']),
          Default (Lit (Txt ''NOT_STARTED''))]),
      (''traceability_data'', JSON, []),
      (''created_at'', TIMESTAMPTZ, [Default CurrentTimestamp, NotNull]),
      (''updated_at'', TIMESTAMPTZ, [Default CurrentTimestamp, NotNull])]
     [UniqueCols [''requirement_id'', ''version'']]]"

definition plans_sql :: sql where
  "plans_sql = [CreateTable ''plans''
     [(''plan_id'', SERIAL, [PrimaryKey]),
      (''name'', VARCHAR 100, [NotNull, Unique]),
      (''description'', TEXT, []),
      (''price'', VARCHAR 20, [NotNull, Default (Lit (Txt ''0.00''))]),
      (''duration'', VARCHAR 20, [NotNull, Default (Lit (Txt ''monthly''))]),
      (''limits'', JSON, [NotNull]),
      (''is_active'', BOOLEAN, [Default (Lit (Boolean True)), NotNull]),
      (''created_at'', TIMESTAMPTZ, [Default CurrentTimestamp, NotNull]),
      (''updated_at'', TIMESTAMPTZ, [Default CurrentTimestamp, NotNull])]
     []]"

definition subscriptions_sql :: sql where
  "subscriptions_sql = [CreateTable ''subscriptions''
     [(''subscription_id'', SERIAL, [PrimaryKey]),
      (''tenant_id'', UUID, [NotNull, References ''tenants'' ''tenant_id'' Cascade]),
      (''plan_id'', INTEGER, [NotNull, References ''plans'' ''plan_id'' NoAction]),
      (''status'', VARCHAR 20, [NotNull, Default (Lit (Txt ''ACTIVE'')),
          Check (InList ''status'' [Txt ''ACTIVE'', Txt ''SUSPENDED'', Txt ''CANCELLED'', Txt ''EXPIRED''])]),
      (''start_date'', TIMESTAMPTZ, [NotNull]),
      (''end_date'', TIMESTAMPTZ, []),
      (''auto_renew'', BOOLEAN, [Default (Lit (Boolean True)), NotNull]),
      (''created_at'', TIMESTAMPTZ, [Default CurrentTimestamp, NotNull]),
      (''updated_at'', TIMESTAMPTZ, [Default CurrentTimestamp, NotNull])]
     [UniqueCols [''tenant_id'']]]"

definition usage_sql :: sql where
  "usage_sql = [CreateTable ''usage''
     [(''usage_id'', SERIAL, [PrimaryKey]),
      (''subscription_id'', INTEGER, [NotNull, References ''subscriptions'' ''subscription_id'' Cascade]),
      (''metric'', VARCHAR 50, [NotNull]),
      (''used'', INTEGER, [NotNull, Default (Lit (Num 0))]),
      (''limit'', INTEGER, [NotNull]),
      (''reset_date'', TIMESTAMPTZ, [NotNull]),
      (''created_at'', TIMESTAMPTZ, [Default CurrentTimestamp, NotNull]),
      (''updated_at'', TIMESTAMPTZ, [Default CurrentTimestamp, NotNull])]
     [UniqueCols [''subscription_id'', ''metric'']]]"

subsection \<open>Indexes, view, triggers and seed rows\<close>

text \<open>
  An entry \<^verbatim>\<open>("idx", "table(c1, c2)")\<close> of the source is the triple of the index name,
  the table and the column list; \<^verbatim>\<open>create_indexes\<close> formats it into
  \<^verbatim>\<open>CREATE INDEX idx ON table(c1, c2);\<close>.
\<close>

definition indexes :: "(name \<times> name \<times> name list) list" where
  "indexes =
    [(''idx_requirement_labels_tenant_id'', ''requirement_labels'', [''tenant_id'']),
     (''idx_requirement_labels_name'', ''requirement_labels'', [''requirement_label'']),
     (''idx_requirements_requirement_id'', ''requirements'', [''requirement_id'']),
     (''idx_requirements_label_id'', ''requirements'', [''label_id'']),
     (''idx_requirements_tenant_id'', ''requirements'', [''tenant_id'']),
     (''idx_requirements_version'', ''requirements'', [''requirement_id'', ''version'']),
     (''idx_requirements_label_id_version'', ''requirements'', [''label_id'', ''version'']),
     (''idx_testcases_testcase_id'', ''testcases'', [''testcase_id'']),
     (''idx_testcases_requirement_id'', ''testcases'', [''requirement_id'']),
     (''idx_testcases_version'', ''testcases'', [''testcase_id'', ''version'']),
     (''idx_testcases_derived_from'', ''testcases'', [''derived_from_row_id'']),
     (''idx_testcases_req_id_version'', ''testcases'', [''requirement_id'', ''version'']),
     (''idx_sections_tenant_id'', ''sections'', [''tenant_id'']),
     (''idx_sections_name'', ''sections'', [''section_name'']),
     (''idx_tsm_testcase_id'', ''testcase_section_map'', [''testcase_id'']),
     (''idx_tsm_section_id'', ''testcase_section_map'', [''section_id'']),
     (''idx_map_requirement_id'', ''requirement_testcase_map'', [''requirement_id'']),
     (''idx_map_testcase_id'', ''requirement_testcase_map'', [''testcase_id'']),
     (''idx_map_requirement_version'', ''requirement_testcase_map'', [''requirement_id'', ''requirement_version'']),
     (''idx_map_testcase_version'', ''requirement_testcase_map'', [''testcase_id'', ''testcase_version'']),
     (''idx_users_tenant_id'', ''users'', [''tenant_id'']),
     (''idx_users_email'', ''users'', [''email'']),
     (''idx_users_auth_provider'', ''users'', [''auth_provider'']),
     (''idx_tcm_integrations_tenant_id'', ''tcm_integrations'', [''tenant_id'']),
     (''idx_tcm_integrations_integrator_type'', ''tcm_integrations'', [''integrator_type'']),
     (''idx_tcm_credentials_integration_id'', ''tcm_credentials'', [''integration_id'']),
     (''idx_testrail_projects_integration_id'', ''testrail_projects'', [''integration_id'']),
     (''idx_testrail_projects_external_id'', ''testrail_projects'', [''external_project_id'']),
     (''idx_testrail_projects_is_active'', ''testrail_projects'', [''is_active'']),
     (''idx_testrail_projects_mode'', ''testrail_projects'', [''project_mode'']),
     (''idx_testrail_suites_project_id'', ''testrail_suites'', [''project_id'']),
     (''idx_testrail_suites_external_id'', ''testrail_suites'', [''external_suite_id'']),
     (''idx_testrail_suites_is_active'', ''testrail_suites'', [''is_active'']),
     (''idx_zephyr_projects_integration_id'', ''zephyr_projects'', [''integration_id'']),
     (''idx_zephyr_projects_project_key'', ''zephyr_projects'', [''project_key'']),
     (''idx_xray_projects_integration_id'', ''xray_projects'', [''integration_id'']),
     (''idx_xray_projects_project_key'', ''xray_projects'', [''project_key'']),
     (''idx_tcm_tc_mappings_tool'', ''tcm_testcase_mappings'', [''tcm_tool'']),
     (''idx_tcm_tc_mappings_external'', ''tcm_testcase_mappings'', [''external_testcase_id'']),
     (''idx_traceability_matrix_requirement_id'', ''traceability_matrix'', [''requirement_id'']),
     (''idx_traceability_matrix_version'', ''traceability_matrix'', [''version'']),
     (''idx_traceability_matrix_status'', ''traceability_matrix'', [''status'']),
     (''idx_plans_name'', ''plans'', [''name'']),
     (''idx_plans_is_active'', ''plans'', [''is_active'']),
     (''idx_subscriptions_tenant_id'', ''subscriptions'', [''tenant_id'']),
     (''idx_subscriptions_plan_id'', ''subscriptions'', [''plan_id'']),
     (''idx_subscriptions_status'', ''subscriptions'', [''status'']),
     (''idx_usage_subscription_id'', ''usage'', [''subscription_id'']),
     (''idx_usage_metric'', ''usage'', [''metric'']),
     (''idx_usage_reset_date'', ''usage'', [''reset_date''])]"

definition unique_indexes :: "(name \<times> name \<times> name list \<times> cond option) list" where
  "unique_indexes =
    [(''ux_tenants_primary_domain'', ''tenants'', [''primary_domain''], Some (IsNotNull ''primary_domain'')),
     (''ux_users_provider_subject'', ''users'', [''auth_provider'', ''external_subject''],
        Some (IsNotNull ''external_subject'')),
     (''ux_sections_tenant_name'', ''sections'', [''tenant_id'', ''section_name''], None),
     (''ux_tsm_testcase_section'', ''testcase_section_map'', [''testcase_id'', ''section_id''], None),
     (''ux_tcm_tc_map_testcase_tool'', ''tcm_testcase_mappings'', [''testcase_id'', ''tcm_tool''], None)]"

definition req_sections_view :: sql where
  "req_sections_view = [CreateOrReplaceView ''requirement_sections_v''
     (SelectDistinct [(''rtm'', ''requirement_id''), (''s'', ''section_id''), (''s'', ''section_name'')]
        (''requirement_testcase_map'', ''rtm'')
        [(''testcase_section_map'', ''tsm'', (''tsm'', ''testcase_id''), (''rtm'', ''testcase_id'')),
         (''sections'', ''s'', (''s'', ''section_id''), (''tsm'', ''section_id''))])]"

definition trigger_function :: sql where
  "trigger_function =
     [CreateOrReplaceFunction ''update_updated_at_column'' (AssignNewReturnNew ''updated_at'' CurrentTimestamp)]"

definition trigger_tables :: "name list" where
  "trigger_tables = [''requirement_labels'', ''requirements'', ''testcases'', ''tenants'', ''users'',
     ''tcm_integrations'', ''tcm_credentials'', ''traceability_matrix'', ''plans'', ''subscriptions'',
     ''usage'']"

definition cascade_fn :: sql where
  "cascade_fn = [CreateOrReplaceFunction ''cascade_delete_section_links_for_tcm''
     (DeleteUsingReturnNull (''testcase_section_map'', ''m'') (''sections'', ''s'')
        [(Of ''m'' ''section_id'', Of ''s'' ''section_id''),
         (Of ''m'' ''testcase_id'', OLD ''testcase_id''),
         (Of ''s'' ''source'', OLD ''tcm_tool'')])]"

definition cascade_trigger :: sql where
  "cascade_trigger =
     [DropTriggerIfExists ''trg_cascade_tcm_mapping_delete'' ''tcm_testcase_mappings'',
      CreateTrigger ''trg_cascade_tcm_mapping_delete'' AFTER DELETE ''tcm_testcase_mappings''
        ''cascade_delete_section_links_for_tcm'']"

definition default_tenant_sql :: sql where
  "default_tenant_sql = [InsertOnConflictDoNothing ''tenants''
     [''tenant_id'', ''tenant_name'', ''tenant_type'', ''tenant_state'', ''primary_domain'']
     [[Txt ''00000000-0000-0000-0000-000000000000'', Txt ''Default Tenant'', Txt ''ORGANIZATION'',
       Txt ''ACTIVE'', Txt ''default.testcase-platform.com'']]
     ''tenant_id'']"

definition default_plans_sql :: sql where
  \<open>default_plans_sql = [InsertOnConflictDoNothing ''plans''
     [''name'', ''description'', ''price'', ''duration'', ''limits'', ''is_active'']
     [[Txt ''Free'', Txt ''Default free plan with limited features'', Txt ''0.00'', Txt ''monthly'',
       Txt ''{"uploads": 5, "testcases": 50, "api_calls": 1000}'', Boolean True],
      [Txt ''Pro'', Txt ''Professional plan with enhanced features'', Txt ''99.00'', Txt ''monthly'',
       Txt ''{"uploads": 500, "testcases": 5000, "api_calls": 100000}'', Boolean True],
      [Txt ''Unlimited'', Txt ''Standalone unlimited plan'', Txt ''0.00'', Txt ''lifetime'',
       Txt ''{"uploads": -1, "testcases": -1, "api_calls": -1}'', Boolean True]]
     ''name'']\<close>

section \<open>The script: \<^verbatim>\<open>DatabaseInitializer\<close>\<close>

text \<open>
  Exceptions are values. The first three come from the driver and from Python itself,
  the others are the server's errors for the statements above.
\<close>

datatype exn =
    OperationalError
  | AttributeError
  | InterfaceError
  | WrongObjectType name
  | DuplicateTable name
  | DuplicateObject name name
  | UndefinedTable name
  | UndefinedColumn name name
  | UndefinedFunction name
  | InvalidForeignKey name name
  | NotNullViolation name name
  | CheckViolation name cond
  | UniqueViolation name "name list"
  | ForeignKeyViolation name name
  | InvalidColumnReference name name
  | SyntaxError name

datatype outcome = Returned | Raised exn | SystemExit nat

datatype log_entry =
    Info string
  | ErrorFailedToConnect exn
  | ErrorFailedToExecute exn
  | ErrorSQL sql
  | ErrorInitializationFailed exn

datatype handle = Unset | Opened | Closed

text \<open>
  The object's two attributes, the log, and the server at the other end of the
  connection: \<open>world\<close> is its state and \<open>executed\<close> the strings handed to
  \<^verbatim>\<open>cursor.execute\<close> so far. The server is a parameter \<open>E\<close> of the script: \<open>E q w\<close> is
  either the error \<^verbatim>\<open>cursor.execute(q)\<close> raises in state \<open>w\<close>, with the state the failed
  string leaves the server in, or the state it leaves when it succeeds.
\<close>

record 'w initializer =
  connection :: handle
  cursor :: handle
  log :: "log_entry list"
  executed :: "sql list"
  world :: 'w

type_synonym 'w engine = "sql \<Rightarrow> 'w \<Rightarrow> (exn \<times> 'w) + 'w"

type_synonym 'w proc = "'w initializer \<Rightarrow> outcome \<times> 'w initializer"

text \<open>Statements in sequence: the first one that does not return normally ends the block.\<close>

fun block :: "'w proc list \<Rightarrow> 'w proc" where
  "block [] st = (Returned, st)"
| "block (f # fs) st = (case f st of (Returned, st') \<Rightarrow> block fs st' | (out, st') \<Rightarrow> (out, st'))"

definition logger_info :: "string \<Rightarrow> 'w proc" where
  "logger_info msg st = (Returned, st\<lparr>log := log st @ [Info msg]\<rparr>)"

text \<open>What \<^verbatim>\<open>psycopg2.connect\<close>, \<^verbatim>\<open>set_isolation_level\<close> and \<^verbatim>\<open>connection.cursor\<close> do.\<close>

datatype connecting = ConnectRaises exn | SetIsolationLevelRaises exn | CursorRaises exn | Connects

definition connect :: "connecting \<Rightarrow> 'w proc" where
  "connect c st = (case c of
       ConnectRaises e \<Rightarrow> (SystemExit 1, st\<lparr>log := log st @ [ErrorFailedToConnect e]\<rparr>)
     | SetIsolationLevelRaises e \<Rightarrow>
         (SystemExit 1, st\<lparr>connection := Opened, log := log st @ [ErrorFailedToConnect e]\<rparr>)
     | CursorRaises e \<Rightarrow>
         (SystemExit 1, st\<lparr>connection := Opened, log := log st @ [ErrorFailedToConnect e]\<rparr>)
     | Connects \<Rightarrow>
         (Returned, st\<lparr>connection := Opened, cursor := Opened,
            log := log st @ [Info ''Connected to database successfully'']\<rparr>))"

definition execute_sql :: "'w engine \<Rightarrow> sql \<Rightarrow> string \<Rightarrow> 'w proc" where
  "execute_sql E q description st =
     (case (case cursor st of
              Unset \<Rightarrow> Inl (AttributeError, st)
            | Closed \<Rightarrow> Inl (InterfaceError, st)
            | Opened \<Rightarrow>
                (case E q (world st) of
                   Inl (e, w) \<Rightarrow> Inl (e, st\<lparr>executed := executed st @ [q], world := w\<rparr>)
                 | Inr w \<Rightarrow> Inr (st\<lparr>executed := executed st @ [q], world := w\<rparr>)))
      of
        Inr st' \<Rightarrow> (Returned, if description \<noteq> [] then st'\<lparr>log := log st' @ [Info description]\<rparr> else st')
      | Inl (e, st') \<Rightarrow> (Raised e, st'\<lparr>log := log st' @ [ErrorFailedToExecute e, ErrorSQL q]\<rparr>))"

definition tables :: "name list" where
  "tables = [''usage'', ''subscriptions'', ''plans'', ''traceability_matrix'', ''tcm_testcase_mappings'',
     ''testcase_section_map'', ''sections'', ''xray_projects'', ''zephyr_projects'', ''testrail_suites'',
     ''testrail_projects'', ''tcm_credentials'', ''tcm_integrations'', ''requirement_testcase_map'',
     ''testcases'', ''requirements'', ''requirement_labels'', ''users'', ''tenants'']"

definition drop_existing_tables :: "'w engine \<Rightarrow> 'w proc" where
  "drop_existing_tables E = block
     (logger_info ''Dropping existing tables...'' #
      map (\<lambda>table. execute_sql E [DropTableIfExistsCascade table] (''Dropped '' @ table)) tables)"

definition create_tenants_table :: "'w engine \<Rightarrow> 'w proc" where
  "create_tenants_table E = block
     [logger_info ''Creating tenants table...'', execute_sql E tenants_sql ''Created tenants table'']"

definition create_requirement_labels_table :: "'w engine \<Rightarrow> 'w proc" where
  "create_requirement_labels_table E = block
     [logger_info ''Creating requirement_labels table...'',
      execute_sql E requirement_labels_sql ''Created requirement_labels table'']"

definition create_requirements_table :: "'w engine \<Rightarrow> 'w proc" where
  "create_requirements_table E = block
     [logger_info ''Creating requirements table...'',
      execute_sql E requirements_sql ''Created requirements table'']"

definition create_testcases_table :: "'w engine \<Rightarrow> 'w proc" where
  "create_testcases_table E = block
     [logger_info ''Creating testcases table...'', execute_sql E testcases_sql ''Created testcases table'']"

definition create_sections_table :: "'w engine \<Rightarrow> 'w proc" where
  "create_sections_table E = block
     [logger_info ''Creating sections table...'', execute_sql E sections_sql ''Created sections table'']"

definition create_testcase_section_map_table :: "'w engine \<Rightarrow> 'w proc" where
  "create_testcase_section_map_table E = block
     [logger_info ''Creating testcase_section_map table...'',
      execute_sql E testcase_section_map_sql ''Created testcase_section_map table'']"

definition create_tcm_testcase_mappings_table :: "'w engine \<Rightarrow> 'w proc" where
  "create_tcm_testcase_mappings_table E = block
     [logger_info ''Creating tcm_testcase_mappings table...'',
      execute_sql E tcm_testcase_mappings_sql ''Created tcm_testcase_mappings table'']"

definition create_mapping_table :: "'w engine \<Rightarrow> 'w proc" where
  "create_mapping_table E = block
     [logger_info ''Creating requirement_testcase_map table...'',
      execute_sql E mapping_sql ''Created requirement_testcase_map table'']"

definition create_users_table :: "'w engine \<Rightarrow> 'w proc" where
  "create_users_table E = block
     [logger_info ''Creating users table...'', execute_sql E users_sql ''Created users table'']"

definition create_tcm_integrations_table :: "'w engine \<Rightarrow> 'w proc" where
  "create_tcm_integrations_table E = block
     [logger_info ''Creating TCM integrations table...'',
      execute_sql E tcm_integrations_sql ''Created TCM integrations table'']"

definition create_tcm_credentials_table :: "'w engine \<Rightarrow> 'w proc" where
  "create_tcm_credentials_table E = block
     [logger_info ''Creating TCM credentials table...'',
      execute_sql E tcm_credentials_sql ''Created TCM credentials table'']"

definition create_testrail_projects_table :: "'w engine \<Rightarrow> 'w proc" where
  "create_testrail_projects_table E = block
     [logger_info ''Creating TestRail projects table...'',
      execute_sql E testrail_projects_sql ''Created TestRail projects table'']"

definition create_testrail_suites_table :: "'w engine \<Rightarrow> 'w proc" where
  "create_testrail_suites_table E = block
     [logger_info ''Creating TestRail suites table...'',
      execute_sql E testrail_suites_sql ''Created TestRail suites table'']"

definition create_zephyr_projects_table :: "'w engine \<Rightarrow> 'w proc" where
  "create_zephyr_projects_table E = block
     [logger_info ''Creating Zephyr projects table...'',
      execute_sql E zephyr_projects_sql ''Created Zephyr projects table'']"

definition create_xray_projects_table :: "'w engine \<Rightarrow> 'w proc" where
  "create_xray_projects_table E = block
     [logger_info ''Creating Xray projects table...'',
      execute_sql E xray_projects_sql ''Created Xray projects table'']"

definition create_traceability_matrix_table :: "'w engine \<Rightarrow> 'w proc" where
  "create_traceability_matrix_table E = block
     [logger_info ''Creating traceability matrix table...'',
      execute_sql E traceability_matrix_sql ''Created traceability matrix table'']"

definition create_plans_table :: "'w engine \<Rightarrow> 'w proc" where
  "create_plans_table E = block
     [logger_info ''Creating plans table...'', execute_sql E plans_sql ''Created plans table'']"

definition create_subscriptions_table :: "'w engine \<Rightarrow> 'w proc" where
  "create_subscriptions_table E = block
     [logger_info ''Creating subscriptions table...'',
      execute_sql E subscriptions_sql ''Created subscriptions table'']"

definition create_usage_table :: "'w engine \<Rightarrow> 'w proc" where
  "create_usage_table E = block
     [logger_info ''Creating usage table...'', execute_sql E usage_sql ''Created usage table'']"

definition create_indexes :: "'w engine \<Rightarrow> 'w proc" where
  "create_indexes E = block
     (logger_info ''Creating indexes...'' #
      map (\<lambda>(index_name, table, columns).
             execute_sql E [CreateIndex False index_name table columns None]
               (''Created index '' @ index_name)) indexes @
      map (\<lambda>(index_name, table, columns, predicate).
             execute_sql E [CreateIndex True index_name table columns predicate]
               (''Created unique index '' @ index_name)) unique_indexes)"

definition create_views :: "'w engine \<Rightarrow> 'w proc" where
  "create_views E = block
     [logger_info ''Creating views...'',
      execute_sql E req_sections_view ''Created view requirement_sections_v'']"

definition create_triggers :: "'w engine \<Rightarrow> 'w proc" where
  "create_triggers E = block
     ([logger_info ''Creating triggers...'',
       execute_sql E trigger_function ''Created trigger function''] @
      map (\<lambda>table.
             execute_sql E
               [CreateTrigger (''update_'' @ table @ ''_updated_at'') BEFORE UPDATE table
                  ''update_updated_at_column'']
               (''Created trigger for '' @ table)) trigger_tables @
      [execute_sql E cascade_fn ''Created cascade function for TCM mapping deletes'',
       execute_sql E cascade_trigger ''Created trigger for cascading TCM mapping deletes''])"

definition insert_default_data :: "'w engine \<Rightarrow> 'w proc" where
  "insert_default_data E = block
     [logger_info ''Creating default tenant...'', execute_sql E default_tenant_sql ''Created default tenant'']"

definition insert_default_plans :: "'w engine \<Rightarrow> 'w proc" where
  "insert_default_plans E = block
     [logger_info ''Creating default subscription plans...'',
      execute_sql E default_plans_sql ''Created default subscription plans'']"

definition pgcrypto_sql :: sql where
  "pgcrypto_sql = [CreateExtensionIfNotExists ''pgcrypto'']"

definition completion_messages :: "string list" where
  "completion_messages =
     [''Database initialization completed successfully!'', ''Tables created:'', ''  - tenants (IAM)'',
      ''  - users (IAM)'', ''  - requirement_labels'', ''  - requirements (with versioning)'',
      ''  - testcases (with versioning)'', ''  - requirement_testcase_map'', ''  - tcm_integrations'',
      ''  - tcm_credentials'', ''  - testrail_projects'', ''  - testrail_suites'', ''  - zephyr_projects'',
      ''  - xray_projects'', ''  - traceability_matrix'', ''  - plans (Subscription Management)'',
      ''  - subscriptions (Subscription Management)'', ''  - usage (Subscription Management)'', [],
      ''You can now start the application with versioning and subscription support!'']"

text \<open>The body of the \<^verbatim>\<open>try\<close> block of \<^verbatim>\<open>initialize_database\<close>.\<close>

definition try_body :: "'w engine \<Rightarrow> connecting \<Rightarrow> 'w proc" where
  "try_body E c = block
     ([connect c,
       execute_sql E pgcrypto_sql ''Enabled pgcrypto'',
       drop_existing_tables E,
       create_tenants_table E,
       create_requirement_labels_table E,
       create_requirements_table E,
       create_testcases_table E,
       create_sections_table E,
       create_testcase_section_map_table E,
       create_mapping_table E,
       create_users_table E,
       create_tcm_integrations_table E,
       create_tcm_credentials_table E,
       create_tcm_testcase_mappings_table E,
       create_testrail_projects_table E,
       create_testrail_suites_table E,
       create_zephyr_projects_table E,
       create_xray_projects_table E,
       create_traceability_matrix_table E,
       create_plans_table E,
       create_subscriptions_table E,
       create_usage_table E,
       create_indexes E,
       create_triggers E,
       create_views E,
       insert_default_data E,
       insert_default_plans E] @
      map logger_info completion_messages)"

text \<open>
  \<^verbatim>\<open>except Exception\<close> logs and re-raises; \<^verbatim>\<open>SystemExit\<close> is not an \<^verbatim>\<open>Exception\<close> and passes
  through. The \<^verbatim>\<open>finally\<close> clause closes the cursor and the connection that are set.
\<close>

definition except_clause :: "'w proc \<Rightarrow> 'w proc" where
  "except_clause body st = (case body st of
       (Raised e, st') \<Rightarrow> (Raised e, st'\<lparr>log := log st' @ [ErrorInitializationFailed e]\<rparr>)
     | (out, st') \<Rightarrow> (out, st'))"

definition close_handle :: "handle \<Rightarrow> handle" where
  "close_handle h = (if h \<noteq> Unset then Closed else h)"

definition finally_clause :: "'w proc \<Rightarrow> 'w proc" where
  "finally_clause body st = (case body st of
       (out, st') \<Rightarrow> (out, st'\<lparr>cursor := close_handle (cursor st'),
                               connection := close_handle (connection st')\<rparr>))"

definition initialize_database :: "'w engine \<Rightarrow> connecting \<Rightarrow> 'w proc" where
  "initialize_database E c =
     block [logger_info ''Initializing database with versioning schema...'',
            finally_clause (except_clause (try_body E c))]"

text \<open>The initializer as \<^verbatim>\<open>__init__\<close> leaves it, facing a server in state \<open>w\<close>.\<close>

definition new_initializer :: "'w \<Rightarrow> 'w initializer" where
  "new_initializer w = \<lparr>connection = Unset, cursor = Unset, log = [], executed = [], world = w\<rparr>"

text \<open>
  The strings \<^verbatim>\<open>initialize_database\<close> hands to \<^verbatim>\<open>cursor.execute\<close>, in the order of its
  calls; \<open>engine_run\<close> is the server executing a list of them until one fails.
\<close>

definition build_sequence :: "sql list" where
  "build_sequence =
     pgcrypto_sql #
     map (\<lambda>table. [DropTableIfExistsCascade table]) tables @
     [tenants_sql, requirement_labels_sql, requirements_sql, testcases_sql, sections_sql,
      testcase_section_map_sql, mapping_sql, users_sql, tcm_integrations_sql, tcm_credentials_sql,
      tcm_testcase_mappings_sql, testrail_projects_sql, testrail_suites_sql, zephyr_projects_sql,
      xray_projects_sql, traceability_matrix_sql, plans_sql, subscriptions_sql, usage_sql] @
     map (\<lambda>(index_name, table, columns). [CreateIndex False index_name table columns None]) indexes @
     map (\<lambda>(index_name, table, columns, predicate).
            [CreateIndex True index_name table columns predicate]) unique_indexes @
     [trigger_function] @
     map (\<lambda>table. [CreateTrigger (''update_'' @ table @ ''_updated_at'') BEFORE UPDATE table
                      ''update_updated_at_column'']) trigger_tables @
     [cascade_fn, cascade_trigger, req_sections_view, default_tenant_sql, default_plans_sql]"

fun engine_run :: "'w engine \<Rightarrow> sql list \<Rightarrow> 'w \<Rightarrow> (exn \<times> 'w) + 'w" where
  "engine_run E [] w = Inr w"
| "engine_run E (q # qs) w = (case E q w of Inl x \<Rightarrow> Inl x | Inr w' \<Rightarrow> engine_run E qs w')"

text \<open>
  \<open>performs E qs m\<close>: started with an open cursor, the method \<open>m\<close> hands the strings \<open>qs\<close>
  to the server in order, stops at the first one that fails, logs that failure with the
  string, and leaves both handles as they were. The server is then in the state the
  failed string left it in.
\<close>

definition performs :: "'w engine \<Rightarrow> sql list \<Rightarrow> 'w proc \<Rightarrow> bool" where
  "performs E qs m \<longleftrightarrow> (\<forall>st. cursor st = Opened \<longrightarrow> (case m st of (out, st') \<Rightarrow>
      cursor st' = Opened \<and> connection st' = connection st \<and>
      (case out of
         Returned \<Rightarrow> executed st' = executed st @ qs \<and> engine_run E qs (world st) = Inr (world st')
       | Raised e \<Rightarrow> (\<exists>pre q post l. qs = pre @ q # post \<and> executed st' = executed st @ pre @ [q] \<and>
            (\<exists>w. engine_run E pre (world st) = Inr w \<and> E q w = Inl (e, world st')) \<and>
            log st' = l @ [ErrorFailedToExecute e, ErrorSQL q])
       | SystemExit n \<Rightarrow> False)))"

section \<open>The server: what PostgreSQL does with these statements\<close>

text \<open>
  The script's subject is the database it builds, so the server is modelled as far as the
  statements above reach: a catalog of relations (tables, indexes and views share one
  namespace), the rows of each table, the sequences behind \<^verbatim>\<open>SERIAL\<close> columns, and
  the functions. Values of \<^verbatim>\<open>CURRENT_TIMESTAMP\<close> are not tracked: a defaulted timestamp is
  the value \<open>Stamp\<close>. The outcomes of \<^verbatim>\<open>gen_random_uuid()\<close> are a stream that belongs
  to the state. Column types are recorded but values are not checked against them.
\<close>

type_synonym row = "(name \<times> val) list"

type_synonym index = "name \<times> bool \<times> name list \<times> cond option"

type_synonym trigger = "name \<times> timing \<times> event \<times> name"

datatype relation =
    Table "column list" "tabcon list" "index list" "trigger list"
  | IndexOn name
  | View query

record db =
  extensions :: "name set"
  relations :: "(name, relation) fmap"
  rows :: "name \<Rightarrow> row list"
  nextval :: "name \<Rightarrow> int"
  routines :: "name \<rightharpoonup> plbody"
  uuid_source :: "nat \<Rightarrow> string"
  uuid_drawn :: nat

definition value_of :: "row \<Rightarrow> name \<Rightarrow> val" where
  "value_of r c = (case map_of r c of Some v \<Rightarrow> v | None \<Rightarrow> Null)"

definition key_of :: "row \<Rightarrow> name list \<Rightarrow> val list" where
  "key_of r cs = map (value_of r) cs"

text \<open>Three-valued logic: \<open>None\<close> is SQL's unknown.\<close>

fun eval :: "row \<Rightarrow> cond \<Rightarrow> bool option" where
  "eval r (IsNotNull c) = Some (value_of r c \<noteq> Null)"
| "eval r (NotEqual c v) =
     (if value_of r c = Null \<or> v = Null then None else Some (value_of r c \<noteq> v))"
| "eval r (InList c vs) =
     (if value_of r c = Null then None
      else if value_of r c \<in> set vs then Some True
      else if Null \<in> set vs then None else Some False)"
| "eval r (And a b) =
     (if eval r a = Some False \<or> eval r b = Some False then Some False
      else if eval r a = Some True \<and> eval r b = Some True then Some True else None)"
| "eval r (Or a b) =
     (if eval r a = Some True \<or> eval r b = Some True then Some True
      else if eval r a = Some False \<and> eval r b = Some False then Some False else None)"

text \<open>What a table definition declares. A primary key and a serial column are not null.\<close>

definition column_names :: "column list \<Rightarrow> name list" where
  "column_names cols = map fst cols"

definition not_null_columns :: "column list \<Rightarrow> name list" where
  "not_null_columns cols =
     map fst (filter (\<lambda>(c, ty, cons). NotNull \<in> set cons \<or> PrimaryKey \<in> set cons \<or>
                                      ty = SERIAL \<or> ty = BIGSERIAL) cols)"

definition unique_keys :: "column list \<Rightarrow> tabcon list \<Rightarrow> name list list" where
  "unique_keys cols tcs =
     map (\<lambda>col. [fst col]) (filter (\<lambda>(c, ty, cons). PrimaryKey \<in> set cons \<or> Unique \<in> set cons) cols) @
     concat (map (\<lambda>k. case k of UniqueCols cs \<Rightarrow> [cs] | _ \<Rightarrow> []) tcs)"

definition checks :: "column list \<Rightarrow> tabcon list \<Rightarrow> cond list" where
  "checks cols tcs =
     concat (map (\<lambda>(c, ty, cons). concat (map (\<lambda>k. case k of Check e \<Rightarrow> [e] | _ \<Rightarrow> []) cons)) cols) @
     concat (map (\<lambda>k. case k of Constraint n e \<Rightarrow> [e] | _ \<Rightarrow> []) tcs)"

definition foreign_keys :: "column list \<Rightarrow> tabcon list \<Rightarrow> (name list \<times> name \<times> name list \<times> action) list" where
  "foreign_keys cols tcs =
     concat (map (\<lambda>(c, ty, cons).
       concat (map (\<lambda>k. case k of References t c' a \<Rightarrow> [([c], t, [c'], a)] | _ \<Rightarrow> []) cons)) cols) @
     concat (map (\<lambda>k. case k of ForeignKey cs t cs' a \<Rightarrow> [(cs, t, cs', a)] | _ \<Rightarrow> []) tcs)"

text \<open>
  Uniqueness. Two rows conflict on a key when both are inside the index predicate, no key
  column of the new row is null (nulls are distinct), and the keys are equal.
\<close>

definition inside :: "cond option \<Rightarrow> row \<Rightarrow> bool" where
  "inside w r = (case w of None \<Rightarrow> True | Some e \<Rightarrow> eval r e = Some True)"

definition conflicts :: "name list \<Rightarrow> cond option \<Rightarrow> row \<Rightarrow> row \<Rightarrow> bool" where
  "conflicts cs w r r' \<longleftrightarrow>
     inside w r \<and> inside w r' \<and> Null \<notin> set (key_of r cs) \<and> key_of r cs = key_of r' cs"

fun unique_rows :: "name list \<Rightarrow> cond option \<Rightarrow> row list \<Rightarrow> bool" where
  "unique_rows cs w [] = True"
| "unique_rows cs w (r # rs) = ((\<forall>r' \<in> set rs. \<not> conflicts cs w r r') \<and> unique_rows cs w rs)"

definition references_row :: "name list \<Rightarrow> name list \<Rightarrow> row \<Rightarrow> row \<Rightarrow> bool" where
  "references_row cs cs' r p \<longleftrightarrow> Null \<notin> set (key_of r cs) \<and> key_of r cs = key_of p cs'"

subsection \<open>Inserting a row\<close>

text \<open>
  \<open>violation d t r\<close> is the first constraint of table \<open>t\<close> that the tuple \<open>r\<close> breaks: the
  tuple has the table's columns; not-null columns; check constraints (a check fails only
  when it is false, not when it is unknown); unique constraints and unique indexes;
  foreign keys (a key with a null column is not checked; a row may reference itself).
\<close>

definition violations :: "db \<Rightarrow> name \<Rightarrow> column list \<Rightarrow> tabcon list \<Rightarrow> index list \<Rightarrow> row \<Rightarrow> exn list" where
  "violations d t cols tcs ixs r =
     (if map fst r = column_names cols then [] else [SyntaxError t]) @
     map (NotNullViolation t) (filter (\<lambda>c. value_of r c = Null) (not_null_columns cols)) @
     map (CheckViolation t) (filter (\<lambda>e. eval r e = Some False) (checks cols tcs)) @
     map (UniqueViolation t)
       (filter (\<lambda>cs. \<exists>r' \<in> set (rows d t). conflicts cs None r r') (unique_keys cols tcs)) @
     map (\<lambda>(i, u, cs, w). UniqueViolation t cs)
       (filter (\<lambda>(i, u, cs, w). u \<and> (\<exists>r' \<in> set (rows d t). conflicts cs w r r')) ixs) @
     map (\<lambda>(cs, t', cs', a). ForeignKeyViolation t t')
       (filter (\<lambda>(cs, t', cs', a). Null \<notin> set (key_of r cs) \<and>
          \<not> (\<exists>p \<in> set (rows d t' @ (if t' = t then [r] else [])). references_row cs cs' r p))
        (foreign_keys cols tcs))"

definition violation :: "db \<Rightarrow> name \<Rightarrow> row \<Rightarrow> exn option" where
  "violation d t r = (case fmlookup (relations d) t of
       Some (Table cols tcs ixs trgs) \<Rightarrow>
         (case violations d t cols tcs ixs r of [] \<Rightarrow> None | e # _ \<Rightarrow> Some e)
     | Some _ \<Rightarrow> Some (WrongObjectType t)
     | None \<Rightarrow> Some (UndefinedTable t))"

definition insert_row :: "db \<Rightarrow> name \<Rightarrow> row \<Rightarrow> exn + db" where
  "insert_row d t r = (case violation d t r of
       Some e \<Rightarrow> Inl e
     | None \<Rightarrow> Inr (d\<lparr>rows := (rows d)(t := rows d t @ [r])\<rparr>))"

text \<open>
  The tuple an \<^verbatim>\<open>INSERT\<close> forms from the columns it names: a column it does not name
  takes the next value of its sequence if it is serial, else its default, else null.
  Evaluating the defaults advances the sequence and the stream of random identifiers,
  also for a row that \<^verbatim>\<open>ON CONFLICT DO NOTHING\<close> then skips.
\<close>

definition declared_default :: "colcon list \<Rightarrow> dflt option" where
  "declared_default cons =
     (case concat (map (\<lambda>k. case k of Default x \<Rightarrow> [x] | _ \<Rightarrow> []) cons) of
        [] \<Rightarrow> None | x # _ \<Rightarrow> Some x)"

definition column_default :: "db \<Rightarrow> name \<Rightarrow> column \<Rightarrow> val" where
  "column_default d t col = (case col of (c, ty, cons) \<Rightarrow>
     if ty = SERIAL \<or> ty = BIGSERIAL then Num (nextval d t)
     else (case declared_default cons of
             None \<Rightarrow> Null
           | Some (Lit v) \<Rightarrow> v
           | Some CurrentTimestamp \<Rightarrow> Stamp
           | Some GenRandomUuid \<Rightarrow> Txt (uuid_source d (uuid_drawn d))))"

definition form_tuple :: "db \<Rightarrow> name \<Rightarrow> column list \<Rightarrow> row \<Rightarrow> row" where
  "form_tuple d t cols given =
     map (\<lambda>col. (fst col, case map_of given (fst col) of Some v \<Rightarrow> v | None \<Rightarrow> column_default d t col)) cols"

definition defaulted :: "column list \<Rightarrow> row \<Rightarrow> column list" where
  "defaulted cols given = filter (\<lambda>col. map_of given (fst col) = None) cols"

definition advance :: "db \<Rightarrow> name \<Rightarrow> column list \<Rightarrow> row \<Rightarrow> db" where
  "advance d t cols given =
     d\<lparr>nextval := (if list_ex (\<lambda>(c, ty, cons). ty = SERIAL \<or> ty = BIGSERIAL) (defaulted cols given)
                    then (nextval d)(t := nextval d t + 1) else nextval d),
       uuid_drawn := (if list_ex (\<lambda>(c, ty, cons). ty \<noteq> SERIAL \<and> ty \<noteq> BIGSERIAL \<and>
                                   declared_default cons = Some GenRandomUuid) (defaulted cols given)
                       then Suc (uuid_drawn d) else uuid_drawn d)\<rparr>"

fun insert_values :: "name \<Rightarrow> name list \<Rightarrow> name \<Rightarrow> val list list \<Rightarrow> db \<Rightarrow> exn + db" where
  "insert_values t cs target [] d = Inr d"
| "insert_values t cs target (vals # rest) d = (case fmlookup (relations d) t of
       Some (Table cols tcs ixs trgs) \<Rightarrow>
         if length vals \<noteq> length cs \<or> \<not> distinct cs then Inl (SyntaxError t)
         else if \<exists>c \<in> set cs. c \<notin> set (column_names cols)
           then Inl (UndefinedColumn t (hd (filter (\<lambda>c. c \<notin> set (column_names cols)) cs)))
         else if [target] \<notin> set (unique_keys cols tcs) then Inl (InvalidColumnReference t target)
         else
           let r = form_tuple d t cols (zip cs vals);
               d1 = advance d t cols (zip cs vals)
           in if \<exists>r' \<in> set (rows d1 t). conflicts [target] None r r'
              then insert_values t cs target rest d1
              else (case insert_row d1 t r of
                      Inl e \<Rightarrow> Inl e
                    | Inr d2 \<Rightarrow> insert_values t cs target rest d2)
     | Some _ \<Rightarrow> Inl (WrongObjectType t)
     | None \<Rightarrow> Inl (UndefinedTable t))"

subsection \<open>Data definition\<close>

fun sources :: "query \<Rightarrow> name list" where
  "sources (SelectDistinct cols (t, a) joins) = t # map fst joins"

text \<open>A view depends on the relations it selects from, and on what those depend on.\<close>

inductive depends :: "(name, relation) fmap \<Rightarrow> name \<Rightarrow> name \<Rightarrow> bool" for rels where
  direct: "fmlookup rels v = Some (View q) \<Longrightarrow> t \<in> set (sources q) \<Longrightarrow> depends rels v t"
| via: "fmlookup rels v = Some (View q) \<Longrightarrow> u \<in> set (sources q) \<Longrightarrow> depends rels u t \<Longrightarrow>
        depends rels v t"

code_pred depends .

definition dependent :: "(name, relation) fmap \<Rightarrow> name \<Rightarrow> name \<Rightarrow> bool" where
  "dependent rels t n = (case fmlookup rels n of
       Some (IndexOn u) \<Rightarrow> u = t
     | Some (View q) \<Rightarrow> depends rels n t
     | _ \<Rightarrow> False)"

fun strip_column :: "name \<Rightarrow> column \<Rightarrow> column" where
  "strip_column t (c, ty, cons) =
     (c, ty, filter (\<lambda>k. case k of References t' c' a \<Rightarrow> t' \<noteq> t | _ \<Rightarrow> True) cons)"

fun strip_refs :: "name \<Rightarrow> relation \<Rightarrow> relation" where
  "strip_refs t (Table cols tcs ixs trgs) =
     Table (map (strip_column t) cols)
       (filter (\<lambda>k. case k of ForeignKey cs t' cs' a \<Rightarrow> t' \<noteq> t | _ \<Rightarrow> True) tcs) ixs trgs"
| "strip_refs t (IndexOn u) = IndexOn u"
| "strip_refs t (View q) = View q"

text \<open>
  \<^verbatim>\<open>DROP TABLE ... CASCADE\<close> removes the table with its rows, sequence, indexes and
  triggers, the views that depend on it, and the foreign keys of other tables that
  reference it. Afterwards nothing named \<open>t\<close> and nothing that refers to \<open>t\<close> is left;
  that is also the state \<^verbatim>\<open>IF EXISTS\<close> leaves when there was no such table.
\<close>

definition drop_table :: "db \<Rightarrow> name \<Rightarrow> db" where
  "drop_table d t =
     d\<lparr>relations :=
         fmmap (strip_refs t)
           (fmfilter (\<lambda>n. n \<noteq> t \<and> \<not> dependent (relations d) t n) (relations d)),
       rows := (rows d)(t := []),
       nextval := (nextval d)(t := 1)\<rparr>"

text \<open>
  A foreign key needs its columns in the table and, in the referenced table, a primary
  key, a unique constraint or a unique index without predicate on the referenced columns.
\<close>

definition referencable :: "column list \<Rightarrow> tabcon list \<Rightarrow> index list \<Rightarrow> name list list" where
  "referencable cols tcs ixs =
     unique_keys cols tcs @
     map (\<lambda>(i, u, cs, w). cs) (filter (\<lambda>(i, u, cs, w). u \<and> w = None) ixs)"

definition foreign_key_errors :: "db \<Rightarrow> name \<Rightarrow> column list \<Rightarrow> tabcon list \<Rightarrow> exn list" where
  "foreign_key_errors d t cols tcs =
     concat (map (\<lambda>(cs, t', cs', a).
        (if set cs \<subseteq> set (column_names cols) then []
         else [UndefinedColumn t (hd (filter (\<lambda>c. c \<notin> set (column_names cols)) cs))]) @
        (if t' = t then (if cs' \<in> set (unique_keys cols tcs) then [] else [InvalidForeignKey t t'])
         else (case fmlookup (relations d) t' of
                 Some (Table cols' tcs' ixs' trgs') \<Rightarrow>
                   if cs' \<in> set (referencable cols' tcs' ixs') then [] else [InvalidForeignKey t t']
               | Some _ \<Rightarrow> [WrongObjectType t']
               | None \<Rightarrow> [UndefinedTable t'])))
       (foreign_keys cols tcs))"

fun exec :: "stmt \<Rightarrow> db \<Rightarrow> exn + db" where
  "exec (CreateExtensionIfNotExists n) d = Inr (d\<lparr>extensions := insert n (extensions d)\<rparr>)"
| "exec (DropTableIfExistsCascade t) d = (case fmlookup (relations d) t of
       Some (IndexOn u) \<Rightarrow> Inl (WrongObjectType t)
     | Some (View q) \<Rightarrow> Inl (WrongObjectType t)
     | _ \<Rightarrow> Inr (drop_table d t))"
| "exec (CreateTable t cols tcs) d =
     (if fmlookup (relations d) t \<noteq> None then Inl (DuplicateTable t)
      else (case foreign_key_errors d t cols tcs of
              e # _ \<Rightarrow> Inl e
            | [] \<Rightarrow> Inr (d\<lparr>relations := fmupd t (Table cols tcs [] []) (relations d),
                            rows := (rows d)(t := []),
                            nextval := (nextval d)(t := 1)\<rparr>)))"
| "exec (CreateIndex u i t cs w) d = (case fmlookup (relations d) t of
       Some (Table cols tcs ixs trgs) \<Rightarrow>
         if fmlookup (relations d) i \<noteq> None then Inl (DuplicateTable i)
         else if \<not> set cs \<subseteq> set (column_names cols)
           then Inl (UndefinedColumn t (hd (filter (\<lambda>c. c \<notin> set (column_names cols)) cs)))
         else if u \<and> \<not> unique_rows cs w (rows d t) then Inl (UniqueViolation t cs)
         else Inr (d\<lparr>relations :=
                       fmupd i (IndexOn t)
                         (fmupd t (Table cols tcs (ixs @ [(i, u, cs, w)]) trgs) (relations d))\<rparr>)
     | Some _ \<Rightarrow> Inl (WrongObjectType t)
     | None \<Rightarrow> Inl (UndefinedTable t))"
| "exec (CreateOrReplaceView v q) d = (case fmlookup (relations d) v of
       Some (Table cols tcs ixs trgs) \<Rightarrow> Inl (WrongObjectType v)
     | Some (IndexOn u) \<Rightarrow> Inl (WrongObjectType v)
     | _ \<Rightarrow>
         (case filter (\<lambda>s. case fmlookup (relations d) s of
                              Some (Table cols tcs ixs trgs) \<Rightarrow> False
                            | Some (View q') \<Rightarrow> False
                            | _ \<Rightarrow> True) (sources q) of
            s # _ \<Rightarrow> Inl (UndefinedTable s)
          | [] \<Rightarrow> Inr (d\<lparr>relations := fmupd v (View q) (relations d)\<rparr>)))"
| "exec (CreateOrReplaceFunction f body) d = Inr (d\<lparr>routines := (routines d)(f \<mapsto> body)\<rparr>)"
| "exec (CreateTrigger n tm ev t f) d = (case fmlookup (relations d) t of
       Some (Table cols tcs ixs trgs) \<Rightarrow>
         if n \<in> fst ` set trgs then Inl (DuplicateObject n t)
         else if routines d f = None then Inl (UndefinedFunction f)
         else Inr (d\<lparr>relations :=
                       fmupd t (Table cols tcs ixs (trgs @ [(n, tm, ev, f)])) (relations d)\<rparr>)
     | Some _ \<Rightarrow> Inl (WrongObjectType t)
     | None \<Rightarrow> Inl (UndefinedTable t))"
| "exec (DropTriggerIfExists n t) d = (case fmlookup (relations d) t of
       Some (Table cols tcs ixs trgs) \<Rightarrow>
         Inr (d\<lparr>relations :=
                  fmupd t (Table cols tcs ixs (filter (\<lambda>g. fst g \<noteq> n) trgs)) (relations d)\<rparr>)
     | Some _ \<Rightarrow> Inl (WrongObjectType t)
     | None \<Rightarrow> Inr d)"
| "exec (InsertOnConflictDoNothing t cs rws target) d = insert_values t cs target rws d"

text \<open>
  One string: its statements in order, until one fails. \<open>server\<close> is this model as the
  engine of the script. A string runs in one implicit transaction; what a failed string
  nevertheless leaves behind (a sequence that a failed \<^verbatim>\<open>INSERT\<close> advanced stays
  advanced) is not modelled, it is the parameter \<open>aborted\<close>.
\<close>

fun pg_execute :: "sql \<Rightarrow> db \<Rightarrow> exn + db" where
  "pg_execute [] d = Inr d"
| "pg_execute (s # ss) d = (case exec s d of Inl e \<Rightarrow> Inl e | Inr d' \<Rightarrow> pg_execute ss d')"

definition server :: "(sql \<Rightarrow> db \<Rightarrow> db) \<Rightarrow> db engine" where
  "server aborted q d = (case pg_execute q d of Inl e \<Rightarrow> Inl (e, aborted q d) | Inr d' \<Rightarrow> Inr d')"

subsection \<open>Deleting rows\<close>

text \<open>
  The rows a \<^verbatim>\<open>DELETE FROM t WHERE P\<close> removes: the rows of \<open>t\<close> that satisfy \<open>P\<close>, the
  rows that reference a removed row through an \<^verbatim>\<open>ON DELETE CASCADE\<close> foreign key, and the
  rows that an \<^verbatim>\<open>AFTER DELETE ... FOR EACH ROW\<close> trigger of a removed row deletes. A
  condition \<^verbatim>\<open>a = b\<close> of the trigger's \<^verbatim>\<open>DELETE ... USING\<close> holds when both sides are
  equal and not null. The trigger's query is read against the state before the statement.
\<close>

fun operand :: "name \<Rightarrow> row \<Rightarrow> name \<Rightarrow> row \<Rightarrow> row \<Rightarrow> rowref \<Rightarrow> val" where
  "operand a m b s old (OLD c) = value_of old c"
| "operand a m b s old (Of x c) = (if x = a then value_of m c else if x = b then value_of s c else Null)"

definition matches :: "name \<Rightarrow> row \<Rightarrow> name \<Rightarrow> row \<Rightarrow> row \<Rightarrow> (rowref \<times> rowref) list \<Rightarrow> bool" where
  "matches a m b s old conds \<longleftrightarrow>
     (\<forall>(x, y) \<in> set conds. operand a m b s old x \<noteq> Null \<and>
                            operand a m b s old x = operand a m b s old y)"

inductive_set deleted :: "db \<Rightarrow> name \<Rightarrow> (row \<Rightarrow> bool) \<Rightarrow> (name \<times> row) set"
  for d :: db and t :: name and P :: "row \<Rightarrow> bool" where
  victim: "r \<in> set (rows d t) \<Longrightarrow> P r \<Longrightarrow> (t, r) \<in> deleted d t P"
| cascade: "(t', p) \<in> deleted d t P \<Longrightarrow>
     fmlookup (relations d) u = Some (Table cols tcs ixs trgs) \<Longrightarrow>
     (cs, t', cs', Cascade) \<in> set (foreign_keys cols tcs) \<Longrightarrow>
     r \<in> set (rows d u) \<Longrightarrow> references_row cs cs' r p \<Longrightarrow> (u, r) \<in> deleted d t P"
| trigger: "(u, old) \<in> deleted d t P \<Longrightarrow>
     fmlookup (relations d) u = Some (Table cols tcs ixs trgs) \<Longrightarrow>
     (n, AFTER, DELETE, f) \<in> set trgs \<Longrightarrow>
     routines d f = Some (DeleteUsingReturnNull (tgt, a) (usg, b) conds) \<Longrightarrow>
     m \<in> set (rows d tgt) \<Longrightarrow> s \<in> set (rows d usg) \<Longrightarrow> matches a m b s old conds \<Longrightarrow>
     (tgt, m) \<in> deleted d t P"

text \<open>A foreign key without \<^verbatim>\<open>ON DELETE\<close> action forbids removing a row that a remaining row references.\<close>

definition restricted :: "db \<Rightarrow> (name \<times> row) set \<Rightarrow> bool" where
  "restricted d D \<longleftrightarrow>
     (\<exists>u \<in> fmdom' (relations d). case fmlookup (relations d) u of
        Some (Table cols tcs ixs trgs) \<Rightarrow>
          \<exists>(cs, t', cs', a) \<in> set (foreign_keys cols tcs). a = NoAction \<and>
            (\<exists>r \<in> set (rows d u). (u, r) \<notin> D \<and>
               (\<exists>(t'', p) \<in> D. t'' = t' \<and> references_row cs cs' r p))
      | _ \<Rightarrow> False)"

definition delete_where :: "db \<Rightarrow> name \<Rightarrow> (row \<Rightarrow> bool) \<Rightarrow> exn + db" where
  "delete_where d t P = (case fmlookup (relations d) t of
       Some (Table cols tcs ixs trgs) \<Rightarrow>
         if restricted d (deleted d t P) then Inl (ForeignKeyViolation t t)
         else Inr (d\<lparr>rows := (\<lambda>u. filter (\<lambda>r. (u, r) \<notin> deleted d t P) (rows d u))\<rparr>)
     | Some _ \<Rightarrow> Inl (WrongObjectType t)
     | None \<Rightarrow> Inl (UndefinedTable t))"

text \<open>
  What an application does to the database afterwards: it inserts and deletes rows. A
  statement that fails leaves the state as it was.
\<close>

datatype dml = InsertRow name row | DeleteWhere name "row \<Rightarrow> bool"

fun apply_dml :: "dml \<Rightarrow> db \<Rightarrow> db" where
  "apply_dml (InsertRow t r) d = (case insert_row d t r of Inl e \<Rightarrow> d | Inr d' \<Rightarrow> d')"
| "apply_dml (DeleteWhere t P) d = (case delete_where d t P of Inl e \<Rightarrow> d | Inr d' \<Rightarrow> d')"

definition run_dml :: "dml list \<Rightarrow> db \<Rightarrow> db" where
  "run_dml ops d = fold apply_dml ops d"

section \<open>Initialization against this server\<close>

text \<open>
  The statements of the build sequence, and the state a successful run of
  \<^verbatim>\<open>initialize_database\<close> leaves the server in.
\<close>

definition statements :: "stmt list" where
  "statements = concat build_sequence"

definition initialize :: "db \<Rightarrow> exn + db" where
  "initialize d = pg_execute statements d"

definition empty_db :: db where
  "empty_db = \<lparr>extensions = {}, relations = fmempty, rows = (\<lambda>t. []), nextval = (\<lambda>t. 1),
     routines = Map.empty, uuid_source = (\<lambda>k. []), uuid_drawn = 0\<rparr>"

text \<open>
  What a statement other than \<^verbatim>\<open>DROP TABLE\<close> does, when it succeeds, to the catalog
  entry of the name \<open>n\<close>.
\<close>

fun is_drop :: "stmt \<Rightarrow> bool" where
  "is_drop (DropTableIfExistsCascade t) = True"
| "is_drop s = False"

fun is_insert :: "stmt \<Rightarrow> bool" where
  "is_insert (InsertOnConflictDoNothing t cs rws target) = True"
| "is_insert s = False"

fun touch :: "name \<Rightarrow> stmt \<Rightarrow> relation option \<Rightarrow> relation option" where
  "touch n (CreateTable t cols tcs) e = (if n = t then Some (Table cols tcs [] []) else e)"
| "touch n (CreateIndex u i t cs w) e =
     (if n = i then Some (IndexOn t)
      else if n = t then (case e of
             Some (Table cols tcs ixs trgs) \<Rightarrow> Some (Table cols tcs (ixs @ [(i, u, cs, w)]) trgs)
           | _ \<Rightarrow> e)
      else e)"
| "touch n (CreateOrReplaceView v q) e = (if n = v then Some (View q) else e)"
| "touch n (CreateTrigger g tm ev t f) e =
     (if n = t then (case e of
             Some (Table cols tcs ixs trgs) \<Rightarrow> Some (Table cols tcs ixs (trgs @ [(g, tm, ev, f)]))
           | _ \<Rightarrow> e)
      else e)"
| "touch n (DropTriggerIfExists g t) e =
     (if n = t then (case e of
             Some (Table cols tcs ixs trgs) \<Rightarrow> Some (Table cols tcs ixs (filter (\<lambda>x. fst x \<noteq> g) trgs))
           | _ \<Rightarrow> e)
      else e)"
| "touch n (CreateExtensionIfNotExists x) e = e"
| "touch n (DropTableIfExistsCascade t) e = e"
| "touch n (CreateOrReplaceFunction f b) e = e"
| "touch n (InsertOnConflictDoNothing t cs rws target) e = e"

subsection \<open>The order of the \<^verbatim>\<open>CREATE TABLE\<close> statements\<close>

fun creations :: "stmt list \<Rightarrow> (name \<times> column list \<times> tabcon list) list" where
  "creations [] = []"
| "creations (CreateTable t cols tcs # ss) = (t, cols, tcs) # creations ss"
| "creations (s # ss) = creations ss"

text \<open>The table definitions of the \<^verbatim>\<open>create_*_table\<close> methods, in the order of their calls.\<close>

definition table_defs :: "(name \<times> column list \<times> tabcon list) list" where
  "table_defs = creations (tenants_sql @ requirement_labels_sql @ requirements_sql @ testcases_sql @
     sections_sql @ testcase_section_map_sql @ mapping_sql @ users_sql @ tcm_integrations_sql @
     tcm_credentials_sql @ tcm_testcase_mappings_sql @ testrail_projects_sql @ testrail_suites_sql @
     zephyr_projects_sql @ xray_projects_sql @ traceability_matrix_sql @ plans_sql @
     subscriptions_sql @ usage_sql)"

text \<open>
  \<open>fk_resolves self prev rest\<close>: every foreign key of every table of \<open>rest\<close> has its
  columns in its own table and references a primary key or unique constraint of a table
  created before it (\<open>prev\<close>, and the tables of \<open>rest\<close> in front of it) or, when \<open>self\<close>
  allows it, of the table being created.
\<close>

fun fk_target_ok ::
  "bool \<Rightarrow> (name \<times> column list \<times> tabcon list) list \<Rightarrow> name \<Rightarrow> column list \<Rightarrow> tabcon list \<Rightarrow>
   (name list \<times> name \<times> name list \<times> action) \<Rightarrow> bool" where
  "fk_target_ok self prev t cols tcs (cs, t', cs', a) =
     (set cs \<subseteq> set (column_names cols) \<and>
      (if self \<and> t' = t then cs' \<in> set (unique_keys cols tcs)
       else (case map_of prev t' of
               Some (cols', tcs') \<Rightarrow> cs' \<in> set (unique_keys cols' tcs')
             | None \<Rightarrow> False)))"

fun fk_resolves ::
  "bool \<Rightarrow> (name \<times> column list \<times> tabcon list) list \<Rightarrow> (name \<times> column list \<times> tabcon list) list \<Rightarrow> bool" where
  "fk_resolves self prev [] = True"
| "fk_resolves self prev ((t, cols, tcs) # rest) =
     (list_all (fk_target_ok self prev t cols tcs) (foreign_keys cols tcs) \<and>
      fk_resolves self ((t, cols, tcs) # prev) rest)"

text \<open>
  Modelled from the spec: the dependency order of its section 2, leaves first, as the
  list of its tiers. A creation order follows it when, among the tables the tiers name,
  no table comes before a table of an earlier tier.
\<close>

definition spec_tiers :: "name list list" where
  "spec_tiers =
     [[''tenants''],
      [''requirement_labels'', ''users'', ''tcm_integrations''],
      [''requirements'', ''tcm_credentials''],
      [''testcases''],
      [''sections'', ''tcm_testcase_mappings'', ''testrail_projects'', ''zephyr_projects'', ''xray_projects''],
      [''testcase_section_map'', ''requirement_testcase_map'', ''traceability_matrix''],
      [''plans''], [''subscriptions''], [''usage'']]"

fun tier_of :: "name list list \<Rightarrow> name \<Rightarrow> nat" where
  "tier_of [] n = 0"
| "tier_of (tier # tiers) n = (if n \<in> set tier then 0 else Suc (tier_of tiers n))"

definition follows_tiers :: "name list list \<Rightarrow> name list \<Rightarrow> bool" where
  "follows_tiers tiers order =
     sorted (map (tier_of tiers) (filter (\<lambda>n. n \<in> set (concat tiers)) order))"

section \<open>Properties of the script\<close>

lemma engine_run_append:
  "engine_run E (ps @ qs) w = (case engine_run E ps w of Inl e \<Rightarrow> Inl e | Inr w' \<Rightarrow> engine_run E qs w')"
  by (induction ps arbitrary: w) (auto split: sum.splits)

lemma first_failure_unique:
  assumes "pre @ q # post = pre' @ q' # post'"
    and "engine_run E pre w = Inr a" and "E q a = Inl e"
    and "engine_run E pre' w = Inr a'" and "E q' a' = Inl e'"
  shows "pre = pre' \<and> q = q' \<and> a = a' \<and> e = e'"
  using assms
proof (induction pre arbitrary: pre' w)
  case Nil
  show ?case
  proof (cases pre')
    case Nil
    with Nil.prems show ?thesis by simp
  next
    case (Cons p' ps')
    with Nil.prems have "p' = q" "a = w" by simp_all
    with Nil.prems Cons show ?thesis by simp
  qed
next
  case (Cons p ps)
  show ?case
  proof (cases pre')
    case Nil
    with Cons.prems have "q' = p" "a' = w" by simp_all
    with Cons.prems Nil show ?thesis by simp
  next
    case Cons': (Cons p' ps')
    with Cons.prems have pp: "p' = p" and rest: "ps @ q # post = ps' @ q' # post'" by simp_all
    from Cons.prems(2) obtain w1 where w1: "E p w = Inr w1" "engine_run E ps w1 = Inr a"
      by (cases "E p w") simp_all
    from Cons.prems(4) Cons' pp w1 have "engine_run E ps' w1 = Inr a'" by simp
    from Cons.IH[OF rest w1(2) Cons.prems(3) this Cons.prems(5)] Cons' pp
    show ?thesis by simp
  qed
qed

lemma performs_Returned:
  "performs E qs m \<Longrightarrow> cursor st = Opened \<Longrightarrow> m st = (Returned, st') \<Longrightarrow>
   executed st' = executed st @ qs \<and> engine_run E qs (world st) = Inr (world st')"
  unfolding performs_def by (erule allE[of _ st]) simp

lemma performs_Raised:
  "performs E qs m \<Longrightarrow> cursor st = Opened \<Longrightarrow> m st = (Raised e, st') \<Longrightarrow>
   \<exists>pre q post l. qs = pre @ q # post \<and> executed st' = executed st @ pre @ [q] \<and>
      (\<exists>w1. engine_run E pre (world st) = Inr w1 \<and> E q w1 = Inl (e, world st')) \<and>
      log st' = l @ [ErrorFailedToExecute e, ErrorSQL q]"
  unfolding performs_def by (erule allE[of _ st]) simp

lemma performs_SystemExit:
  "performs E qs m \<Longrightarrow> cursor st = Opened \<Longrightarrow> m st \<noteq> (SystemExit n, st')"
  unfolding performs_def by (erule allE[of _ st]) auto

lemma performs_handles:
  "performs E qs m \<Longrightarrow> cursor st = Opened \<Longrightarrow> m st = (out, st') \<Longrightarrow>
   cursor st' = Opened \<and> connection st' = connection st"
  unfolding performs_def by (erule allE[of _ st]) simp

lemma performsI:
  assumes "\<And>st out st'. cursor st = Opened \<Longrightarrow> m st = (out, st') \<Longrightarrow>
      cursor st' = Opened \<and> connection st' = connection st \<and>
      (case out of
         Returned \<Rightarrow> executed st' = executed st @ qs \<and> engine_run E qs (world st) = Inr (world st')
       | Raised e \<Rightarrow> (\<exists>pre q post l. qs = pre @ q # post \<and> executed st' = executed st @ pre @ [q] \<and>
            (\<exists>w1. engine_run E pre (world st) = Inr w1 \<and> E q w1 = Inl (e, world st')) \<and>
            log st' = l @ [ErrorFailedToExecute e, ErrorSQL q])
       | SystemExit n \<Rightarrow> False)"
  shows "performs E qs m"
  unfolding performs_def
proof (intro allI impI)
  fix st :: "'a initializer"
  assume op: "cursor st = Opened"
  obtain out st' where r: "m st = (out, st')" by (cases "m st")
  from assms[OF op r] r
  show "case m st of (out, st') \<Rightarrow>
      cursor st' = Opened \<and> connection st' = connection st \<and>
      (case out of
         Returned \<Rightarrow> executed st' = executed st @ qs \<and> engine_run E qs (world st) = Inr (world st')
       | Raised e \<Rightarrow> (\<exists>pre q post l. qs = pre @ q # post \<and> executed st' = executed st @ pre @ [q] \<and>
            (\<exists>w1. engine_run E pre (world st) = Inr w1 \<and> E q w1 = Inl (e, world st')) \<and>
            log st' = l @ [ErrorFailedToExecute e, ErrorSQL q])
       | SystemExit n \<Rightarrow> False)"
    by simp
qed

lemma performs_logger_info: "performs E [] (logger_info msg)"
  by (simp add: performs_def logger_info_def)

lemma performs_execute_sql: "performs E [q] (execute_sql E q description)"
proof (rule performsI)
  fix st :: "'a initializer" and out st'
  assume op: "cursor st = Opened" and r: "execute_sql E q description st = (out, st')"
  show "cursor st' = Opened \<and> connection st' = connection st \<and>
      (case out of
         Returned \<Rightarrow> executed st' = executed st @ [q] \<and> engine_run E [q] (world st) = Inr (world st')
       | Raised e \<Rightarrow> (\<exists>pre q' post l. [q] = pre @ q' # post \<and> executed st' = executed st @ pre @ [q'] \<and>
            (\<exists>w1. engine_run E pre (world st) = Inr w1 \<and> E q' w1 = Inl (e, world st')) \<and>
            log st' = l @ [ErrorFailedToExecute e, ErrorSQL q'])
       | SystemExit n \<Rightarrow> False)"
  proof (cases "E q (world st)")
    case (Inl x)
    obtain e w where x: "x = (e, w)" by (cases x)
    with Inl op r have o: "out = Raised e"
      and s: "st' = st\<lparr>executed := executed st @ [q], world := w,
                log := log st @ [ErrorFailedToExecute e, ErrorSQL q]\<rparr>"
      by (simp_all add: execute_sql_def)
    have "[q] = [] @ q # [] \<and> executed st' = executed st @ [] @ [q] \<and>
          (\<exists>w1. engine_run E [] (world st) = Inr w1 \<and> E q w1 = Inl (e, world st')) \<and>
          log st' = log st @ [ErrorFailedToExecute e, ErrorSQL q]"
      using s Inl x by simp
    then have "\<exists>pre q' post l. [q] = pre @ q' # post \<and> executed st' = executed st @ pre @ [q'] \<and>
            (\<exists>w1. engine_run E pre (world st) = Inr w1 \<and> E q' w1 = Inl (e, world st')) \<and>
            log st' = l @ [ErrorFailedToExecute e, ErrorSQL q']"
      by blast
    with o s op show ?thesis by simp
  next
    case (Inr w)
    with op r have "out = Returned" "cursor st' = Opened" "connection st' = connection st"
      "executed st' = executed st @ [q]" "world st' = w"
      by (auto simp: execute_sql_def split: if_splits)
    with op Inr show ?thesis by simp
  qed
qed

lemma performs_block_Nil: "performs E [] (block [])"
  by (simp add: performs_def)

lemma performs_block_Cons:
  assumes m: "performs E qs m" and ms: "performs E rs (block ms)"
  shows "performs E (qs @ rs) (block (m # ms))"
proof (rule performsI)
  fix st :: "'a initializer" and out st'
  assume op: "cursor st = Opened" and r: "block (m # ms) st = (out, st')"
  obtain out1 st1 where r1: "m st = (out1, st1)" by (cases "m st")
  note c1 = performs_handles[OF m op r1]
  show "cursor st' = Opened \<and> connection st' = connection st \<and>
      (case out of
         Returned \<Rightarrow> executed st' = executed st @ qs @ rs \<and>
           engine_run E (qs @ rs) (world st) = Inr (world st')
       | Raised e \<Rightarrow> (\<exists>pre q post l. qs @ rs = pre @ q # post \<and> executed st' = executed st @ pre @ [q] \<and>
            (\<exists>w1. engine_run E pre (world st) = Inr w1 \<and> E q w1 = Inl (e, world st')) \<and>
            log st' = l @ [ErrorFailedToExecute e, ErrorSQL q])
       | SystemExit n \<Rightarrow> False)"
  proof (cases out1)
    case Returned
    note e1 = performs_Returned[OF m op r1[unfolded Returned]]
    from r r1 Returned have r2: "block ms st1 = (out, st')" by simp
    from c1 have op1: "cursor st1 = Opened" by simp
    note c2 = performs_handles[OF ms op1 r2]
    show ?thesis
    proof (cases out)
      case Returned
      from performs_Returned[OF ms op1 r2[unfolded Returned]] e1 c1 c2 Returned
      show ?thesis by (simp add: engine_run_append)
    next
      case (Raised e)
      from performs_Raised[OF ms op1 r2[unfolded Raised]]
      obtain pre q post l w1 where d: "rs = pre @ q # post"
        "executed st' = executed st1 @ pre @ [q]"
        "engine_run E pre (world st1) = Inr w1" "E q w1 = Inl (e, world st')"
        "log st' = l @ [ErrorFailedToExecute e, ErrorSQL q]"
        by blast
      have "qs @ rs = (qs @ pre) @ q # post \<and> executed st' = executed st @ (qs @ pre) @ [q] \<and>
            (\<exists>w1. engine_run E (qs @ pre) (world st) = Inr w1 \<and> E q w1 = Inl (e, world st')) \<and>
            log st' = l @ [ErrorFailedToExecute e, ErrorSQL q]"
        using d e1 by (simp add: engine_run_append)
      then have "\<exists>pre q post l. qs @ rs = pre @ q # post \<and> executed st' = executed st @ pre @ [q] \<and>
            (\<exists>w1. engine_run E pre (world st) = Inr w1 \<and> E q w1 = Inl (e, world st')) \<and>
            log st' = l @ [ErrorFailedToExecute e, ErrorSQL q]"
        by blast
      with Raised c1 c2 show ?thesis by simp
    next
      case (SystemExit n)
      with performs_SystemExit[OF ms op1, of n st'] r2 show ?thesis by simp
    qed
  next
    case (Raised e)
    with r r1 have eq: "out = Raised e" "st' = st1" by simp_all
    from performs_Raised[OF m op r1[unfolded Raised]]
    obtain pre q post l w1 where d: "qs = pre @ q # post"
      "executed st1 = executed st @ pre @ [q]"
      "engine_run E pre (world st) = Inr w1" "E q w1 = Inl (e, world st1)"
      "log st1 = l @ [ErrorFailedToExecute e, ErrorSQL q]"
      by blast
    have "qs @ rs = pre @ q # (post @ rs) \<and> executed st1 = executed st @ pre @ [q] \<and>
          (\<exists>w1. engine_run E pre (world st) = Inr w1 \<and> E q w1 = Inl (e, world st1)) \<and>
          log st1 = l @ [ErrorFailedToExecute e, ErrorSQL q]"
      using d by simp
    then have "\<exists>pre q post l. qs @ rs = pre @ q # post \<and> executed st1 = executed st @ pre @ [q] \<and>
          (\<exists>w1. engine_run E pre (world st) = Inr w1 \<and> E q w1 = Inl (e, world st1)) \<and>
          log st1 = l @ [ErrorFailedToExecute e, ErrorSQL q]"
      by blast
    with eq c1 show ?thesis by simp
  next
    case (SystemExit n)
    with performs_SystemExit[OF m op, of n st1] r1 show ?thesis by simp
  qed
qed

lemma performs_block_log:
  "performs E rs (block ms) \<Longrightarrow> performs E rs (block (logger_info msg # ms))"
  using performs_block_Cons[OF performs_logger_info, of E rs ms msg] by simp

lemma performs_block_exec:
  "performs E rs (block ms) \<Longrightarrow> performs E (q # rs) (block (execute_sql E q description # ms))"
  using performs_block_Cons[OF performs_execute_sql, of E rs ms q description] by simp

lemma performs_block_map:
  assumes "\<And>x. performs E [f x] (g x)" and "performs E rs (block ms)"
  shows "performs E (map f xs @ rs) (block (map g xs @ ms))"
proof (induction xs)
  case Nil
  then show ?case using assms(2) by simp
next
  case (Cons x xs)
  from performs_block_Cons[OF assms(1)[of x] Cons] show ?case by (simp del: block.simps)
qed

lemma performs_block_infos: "performs E [] (block (map logger_info msgs))"
proof (induction msgs)
  case Nil
  show ?case by (simp add: performs_block_Nil del: block.simps)
next
  case (Cons m ms)
  from performs_block_log[OF Cons, of m] show ?case by (simp del: block.simps)
qed

lemma performs_log_exec: "performs E ([q] @ []) (block [logger_info msg, execute_sql E q d])"
  using performs_block_log[OF performs_block_exec[OF performs_block_Nil]] by simp

lemma performs_methods:
  "performs E [tenants_sql] (create_tenants_table E)"
  "performs E [requirement_labels_sql] (create_requirement_labels_table E)"
  "performs E [requirements_sql] (create_requirements_table E)"
  "performs E [testcases_sql] (create_testcases_table E)"
  "performs E [sections_sql] (create_sections_table E)"
  "performs E [testcase_section_map_sql] (create_testcase_section_map_table E)"
  "performs E [mapping_sql] (create_mapping_table E)"
  "performs E [users_sql] (create_users_table E)"
  "performs E [tcm_integrations_sql] (create_tcm_integrations_table E)"
  "performs E [tcm_credentials_sql] (create_tcm_credentials_table E)"
  "performs E [tcm_testcase_mappings_sql] (create_tcm_testcase_mappings_table E)"
  "performs E [testrail_projects_sql] (create_testrail_projects_table E)"
  "performs E [testrail_suites_sql] (create_testrail_suites_table E)"
  "performs E [zephyr_projects_sql] (create_zephyr_projects_table E)"
  "performs E [xray_projects_sql] (create_xray_projects_table E)"
  "performs E [traceability_matrix_sql] (create_traceability_matrix_table E)"
  "performs E [plans_sql] (create_plans_table E)"
  "performs E [subscriptions_sql] (create_subscriptions_table E)"
  "performs E [usage_sql] (create_usage_table E)"
  "performs E [req_sections_view] (create_views E)"
  "performs E [default_tenant_sql] (insert_default_data E)"
  "performs E [default_plans_sql] (insert_default_plans E)"
  unfolding create_tenants_table_def create_requirement_labels_table_def
    create_requirements_table_def create_testcases_table_def create_sections_table_def
    create_testcase_section_map_table_def create_mapping_table_def create_users_table_def
    create_tcm_integrations_table_def create_tcm_credentials_table_def
    create_tcm_testcase_mappings_table_def create_testrail_projects_table_def
    create_testrail_suites_table_def create_zephyr_projects_table_def
    create_xray_projects_table_def create_traceability_matrix_table_def create_plans_table_def
    create_subscriptions_table_def create_usage_table_def create_views_def
    insert_default_data_def insert_default_plans_def
  using performs_log_exec[of E] by simp_all

lemma performs_drop_existing_tables:
  "performs E (map (\<lambda>table. [DropTableIfExistsCascade table]) tables) (drop_existing_tables E)"
proof -
  have "performs E (map (\<lambda>table. [DropTableIfExistsCascade table]) tables @ [])
     (block (map (\<lambda>table. execute_sql E [DropTableIfExistsCascade table] (''Dropped '' @ table)) tables @ []))"
    by (rule performs_block_map[OF performs_execute_sql performs_block_Nil])
  from performs_block_log[OF this] show ?thesis
    by (simp add: drop_existing_tables_def del: block.simps)
qed

lemma performs_create_indexes:
  "performs E
     (map (\<lambda>(index_name, table, columns). [CreateIndex False index_name table columns None]) indexes @
      map (\<lambda>(index_name, table, columns, predicate).
             [CreateIndex True index_name table columns predicate]) unique_indexes)
     (create_indexes E)"
proof -
  have u: "performs E
      (map (\<lambda>(index_name, table, columns, predicate).
             [CreateIndex True index_name table columns predicate]) unique_indexes @ [])
      (block (map (\<lambda>(index_name, table, columns, predicate).
             execute_sql E [CreateIndex True index_name table columns predicate]
               (''Created unique index '' @ index_name)) unique_indexes @ []))"
    by (rule performs_block_map[OF _ performs_block_Nil])
       (simp add: split_def performs_execute_sql)
  have "performs E
      (map (\<lambda>(index_name, table, columns). [CreateIndex False index_name table columns None]) indexes @
       map (\<lambda>(index_name, table, columns, predicate).
             [CreateIndex True index_name table columns predicate]) unique_indexes @ [])
      (block (map (\<lambda>(index_name, table, columns).
             execute_sql E [CreateIndex False index_name table columns None]
               (''Created index '' @ index_name)) indexes @
         map (\<lambda>(index_name, table, columns, predicate).
             execute_sql E [CreateIndex True index_name table columns predicate]
               (''Created unique index '' @ index_name)) unique_indexes @ []))"
    by (rule performs_block_map[OF _ u]) (simp add: split_def performs_execute_sql)
  from performs_block_log[OF this] show ?thesis
    by (simp add: create_indexes_def del: block.simps)
qed

lemma performs_create_triggers:
  "performs E
     ([trigger_function] @
      map (\<lambda>table. [CreateTrigger (''update_'' @ table @ ''_updated_at'') BEFORE UPDATE table
                      ''update_updated_at_column'']) trigger_tables @
      [cascade_fn, cascade_trigger])
     (create_triggers E)"
proof -
  have t: "performs E [cascade_fn, cascade_trigger]
     (block [execute_sql E cascade_fn ''Created cascade function for TCM mapping deletes'',
             execute_sql E cascade_trigger ''Created trigger for cascading TCM mapping deletes''])"
    by (intro performs_block_exec performs_block_Nil)
  have "performs E
      (map (\<lambda>table. [CreateTrigger (''update_'' @ table @ ''_updated_at'') BEFORE UPDATE table
                      ''update_updated_at_column'']) trigger_tables @ [cascade_fn, cascade_trigger])
      (block (map (\<lambda>table.
             execute_sql E
               [CreateTrigger (''update_'' @ table @ ''_updated_at'') BEFORE UPDATE table
                  ''update_updated_at_column'']
               (''Created trigger for '' @ table)) trigger_tables @
         [execute_sql E cascade_fn ''Created cascade function for TCM mapping deletes'',
          execute_sql E cascade_trigger ''Created trigger for cascading TCM mapping deletes'']))"
    by (rule performs_block_map[OF performs_execute_sql t])
  from performs_block_log[OF performs_block_exec[OF this]] show ?thesis
    by (simp add: create_triggers_def del: block.simps)
qed

lemma performs_after_connect:
  "performs E build_sequence
     (block
       (execute_sql E pgcrypto_sql ''Enabled pgcrypto'' #
        drop_existing_tables E #
        create_tenants_table E #
        create_requirement_labels_table E #
        create_requirements_table E #
        create_testcases_table E #
        create_sections_table E #
        create_testcase_section_map_table E #
        create_mapping_table E #
        create_users_table E #
        create_tcm_integrations_table E #
        create_tcm_credentials_table E #
        create_tcm_testcase_mappings_table E #
        create_testrail_projects_table E #
        create_testrail_suites_table E #
        create_zephyr_projects_table E #
        create_xray_projects_table E #
        create_traceability_matrix_table E #
        create_plans_table E #
        create_subscriptions_table E #
        create_usage_table E #
        create_indexes E #
        create_triggers E #
        create_views E #
        insert_default_data E #
        insert_default_plans E #
        map logger_info completion_messages))"
proof -
  have "performs E
     ([pgcrypto_sql] @
      map (\<lambda>table. [DropTableIfExistsCascade table]) tables @
      [tenants_sql] @ [requirement_labels_sql] @ [requirements_sql] @ [testcases_sql] @
      [sections_sql] @ [testcase_section_map_sql] @ [mapping_sql] @ [users_sql] @
      [tcm_integrations_sql] @ [tcm_credentials_sql] @ [tcm_testcase_mappings_sql] @
      [testrail_projects_sql] @ [testrail_suites_sql] @ [zephyr_projects_sql] @
      [xray_projects_sql] @ [traceability_matrix_sql] @ [plans_sql] @ [subscriptions_sql] @
      [usage_sql] @
      (map (\<lambda>(index_name, table, columns). [CreateIndex False index_name table columns None]) indexes @
       map (\<lambda>(index_name, table, columns, predicate).
            [CreateIndex True index_name table columns predicate]) unique_indexes) @
      ([trigger_function] @
       map (\<lambda>table. [CreateTrigger (''update_'' @ table @ ''_updated_at'') BEFORE UPDATE table
                      ''update_updated_at_column'']) trigger_tables @
       [cascade_fn, cascade_trigger]) @
      [req_sections_view] @ [default_tenant_sql] @ [default_plans_sql] @ [])
     (block
       (execute_sql E pgcrypto_sql ''Enabled pgcrypto'' #
        drop_existing_tables E #
        create_tenants_table E #
        create_requirement_labels_table E #
        create_requirements_table E #
        create_testcases_table E #
        create_sections_table E #
        create_testcase_section_map_table E #
        create_mapping_table E #
        create_users_table E #
        create_tcm_integrations_table E #
        create_tcm_credentials_table E #
        create_tcm_testcase_mappings_table E #
        create_testrail_projects_table E #
        create_testrail_suites_table E #
        create_zephyr_projects_table E #
        create_xray_projects_table E #
        create_traceability_matrix_table E #
        create_plans_table E #
        create_subscriptions_table E #
        create_usage_table E #
        create_indexes E #
        create_triggers E #
        create_views E #
        insert_default_data E #
        insert_default_plans E #
        map logger_info completion_messages))"
    by (intro performs_block_Cons performs_execute_sql performs_drop_existing_tables
        performs_methods performs_create_indexes performs_create_triggers performs_block_infos)
  then show ?thesis
    by (simp add: build_sequence_def del: block.simps)
qed

declare block.simps [simp del]


lemma connect_Connects:
  "connect Connects st = (Returned, st\<lparr>connection := Opened, cursor := Opened,
      log := log st @ [Info ''Connected to database successfully'']\<rparr>)"
  by (simp add: connect_def)

lemma block_Cons_Returned: "f st = (Returned, st') \<Longrightarrow> block (f # fs) st = block fs st'"
  by (simp add: block.simps)

lemma block_connect_performs:
  assumes p: "performs E qs (block ms)"
    and r: "block (connect Connects # ms) st = (out, st')"
  shows "cursor st' = Opened \<and> connection st' = Opened \<and>
      (case out of
         Returned \<Rightarrow> executed st' = executed st @ qs \<and>
           engine_run E qs (world st) = Inr (world st')
       | Raised e \<Rightarrow> (\<exists>pre q post l. qs = pre @ q # post \<and>
            executed st' = executed st @ pre @ [q] \<and>
            (\<exists>w1. engine_run E pre (world st) = Inr w1 \<and> E q w1 = Inl (e, world st')) \<and>
            log st' = l @ [ErrorFailedToExecute e, ErrorSQL q])
       | SystemExit n \<Rightarrow> False)"
proof -
  define st1 where "st1 = st\<lparr>connection := Opened, cursor := Opened,
      log := log st @ [Info ''Connected to database successfully'']\<rparr>"
  have c: "connect Connects st = (Returned, st1)"
    by (simp add: connect_def st1_def)
  from r block_Cons_Returned[of "connect Connects" st st1 ms, OF c] have r1: "block ms st1 = (out, st')" by simp
  have op: "cursor st1 = Opened" and s1: "connection st1 = Opened" "executed st1 = executed st"
    "world st1 = world st"
    by (simp_all add: st1_def)
  from performs_handles[OF p op r1] s1 have h: "cursor st' = Opened" "connection st' = Opened"
    by simp_all
  show ?thesis
  proof (cases out)
    case Returned
    from performs_Returned[OF p op r1[unfolded Returned]] h Returned s1 show ?thesis by simp
  next
    case (Raised e)
    from performs_Raised[OF p op r1[unfolded Raised]] h Raised s1 show ?thesis by simp
  next
    case (SystemExit n)
    from performs_SystemExit[OF p op, of n st'] r1 SystemExit show ?thesis by simp
  qed
qed

lemma try_body_Connects:
  assumes "try_body E Connects st = (out, st')"
  shows "cursor st' = Opened \<and> connection st' = Opened \<and>
      (case out of
         Returned \<Rightarrow> executed st' = executed st @ build_sequence \<and>
           engine_run E build_sequence (world st) = Inr (world st')
       | Raised e \<Rightarrow> (\<exists>pre q post l. build_sequence = pre @ q # post \<and>
            executed st' = executed st @ pre @ [q] \<and>
            (\<exists>w1. engine_run E pre (world st) = Inr w1 \<and> E q w1 = Inl (e, world st')) \<and>
            log st' = l @ [ErrorFailedToExecute e, ErrorSQL q])
       | SystemExit n \<Rightarrow> False)"
  using assms unfolding try_body_def append_Cons append_Nil
  by (rule block_connect_performs[OF performs_after_connect])

lemma try_body_not_connected:
  assumes "c \<noteq> Connects" and "cursor st = Unset"
  shows "\<exists>st'. try_body E c st = (SystemExit 1, st') \<and> cursor st' = Unset \<and>
     connection st' = (case c of ConnectRaises x \<Rightarrow> connection st | _ \<Rightarrow> Opened) \<and>
     executed st' = executed st \<and> world st' = world st"
  using assms by (cases c) (simp_all add: try_body_def connect_def block.simps(2))

lemma initialize_database_result:
  "initialize_database E c st0 =
     (case try_body E c (st0\<lparr>log := log st0 @ [Info ''Initializing database with versioning schema...'']\<rparr>) of
        (out, st') \<Rightarrow>
          (out, (case out of Raised e \<Rightarrow> st'\<lparr>log := log st' @ [ErrorInitializationFailed e]\<rparr> | _ \<Rightarrow> st')
                \<lparr>cursor := close_handle (cursor st'), connection := close_handle (connection st')\<rparr>))"
  by (simp add: initialize_database_def logger_info_def finally_clause_def except_clause_def
      block.simps split: prod.splits outcome.splits)

lemma initialize_database_not_connected:
  assumes "c \<noteq> Connects"
  shows "\<exists>st. initialize_database E c (new_initializer w) = (SystemExit 1, st) \<and>
      executed st = [] \<and> world st = w \<and> cursor st = Unset \<and>
      connection st = (case c of ConnectRaises x \<Rightarrow> Unset | _ \<Rightarrow> Closed)"
proof -
  let ?st0 = "(new_initializer w)\<lparr>log := log (new_initializer w) @
      [Info ''Initializing database with versioning schema...'']\<rparr>"
  have u: "cursor ?st0 = Unset" by (simp add: new_initializer_def)
  from try_body_not_connected[OF assms u, of E] obtain st' where
    t: "try_body E c ?st0 = (SystemExit 1, st')" and h: "cursor st' = Unset"
    "connection st' = (case c of ConnectRaises x \<Rightarrow> connection ?st0 | _ \<Rightarrow> Opened)"
    "executed st' = executed ?st0" "world st' = world ?st0"
    by blast
  from t h show ?thesis
    by (cases c) (simp_all add: initialize_database_result close_handle_def new_initializer_def)
qed

lemma initialize_database_releases:
  "cursor (snd (initialize_database E c (new_initializer w))) = (if c = Connects then Closed else Unset) \<and>
   connection (snd (initialize_database E c (new_initializer w))) =
     (case c of ConnectRaises x \<Rightarrow> Unset | _ \<Rightarrow> Closed)"
proof (cases "c = Connects")
  case True
  let ?st0 = "(new_initializer w)\<lparr>log := log (new_initializer w) @
      [Info ''Initializing database with versioning schema...'']\<rparr>"
  obtain out st' where r: "try_body E Connects ?st0 = (out, st')"
    by (cases "try_body E Connects ?st0")
  from try_body_Connects[OF r] have h: "cursor st' = Opened" "connection st' = Opened" by simp_all
  from r h True show ?thesis
    by (simp add: initialize_database_result close_handle_def split: outcome.splits)
next
  case False
  from initialize_database_not_connected[OF False, of E w] False show ?thesis by auto
qed

lemma initialize_database_Raised:
  assumes seq: "build_sequence = pre @ q # post"
    and pre: "engine_run E pre w = Inr w'" and q: "E q w' = Inl (e, w'')"
  shows "\<exists>st l. initialize_database E Connects (new_initializer w) = (Raised e, st) \<and>
      executed st = pre @ [q] \<and> world st = w'' \<and>
      log st = l @ [ErrorFailedToExecute e, ErrorSQL q, ErrorInitializationFailed e] \<and>
      cursor st = Closed \<and> connection st = Closed"
proof -
  let ?st0 = "(new_initializer w)\<lparr>log := log (new_initializer w) @
      [Info ''Initializing database with versioning schema...'']\<rparr>"
  obtain out st' where r: "try_body E Connects ?st0 = (out, st')"
    by (cases "try_body E Connects ?st0")
  note t = try_body_Connects[OF r]
  have w0: "world ?st0 = w" "executed ?st0 = []" by (simp_all add: new_initializer_def)
  from pre q have "engine_run E (pre @ q # post) w = Inl (e, w'')"
    by (simp add: engine_run_append)
  then have fails: "engine_run E build_sequence w = Inl (e, w'')"
    unfolding seq .
  show ?thesis
  proof (cases out)
    case Returned
    with t w0 fails show ?thesis by simp
  next
    case (Raised e')
    with t w0 obtain pre' q' post' l w1 where d: "build_sequence = pre' @ q' # post'"
      "executed st' = pre' @ [q']" "engine_run E pre' w = Inr w1"
      "E q' w1 = Inl (e', world st')" "log st' = l @ [ErrorFailedToExecute e', ErrorSQL q']"
      by auto
    from seq d(1) have "pre @ q # post = pre' @ q' # post'" by simp
    from first_failure_unique[OF this pre q d(3) d(4)]
    have u: "pre = pre'" "q = q'" "w'' = world st'" "e = e'" by simp_all
    from t have h: "cursor st' = Opened" "connection st' = Opened" by simp_all
    have "initialize_database E Connects (new_initializer w) =
        (Raised e, st'\<lparr>log := log st' @ [ErrorInitializationFailed e],
                       cursor := Closed, connection := Closed\<rparr>)"
      using r Raised u h by (simp add: initialize_database_result close_handle_def)
    with d u show ?thesis by simp
  next
    case (SystemExit n)
    with t show ?thesis by simp
  qed
qed

lemma initialize_database_Returned:
  assumes ok: "engine_run E build_sequence w = Inr w'"
  shows "\<exists>st. initialize_database E Connects (new_initializer w) = (Returned, st) \<and>
      executed st = build_sequence \<and> world st = w' \<and> cursor st = Closed \<and> connection st = Closed"
proof -
  let ?st0 = "(new_initializer w)\<lparr>log := log (new_initializer w) @
      [Info ''Initializing database with versioning schema...'']\<rparr>"
  obtain out st' where r: "try_body E Connects ?st0 = (out, st')"
    by (cases "try_body E Connects ?st0")
  note t = try_body_Connects[OF r]
  have w0: "world ?st0 = w" "executed ?st0 = []" by (simp_all add: new_initializer_def)
  from t have h: "cursor st' = Opened" "connection st' = Opened" by simp_all
  show ?thesis
  proof (cases out)
    case Returned
    with t w0 ok have "executed st' = build_sequence" "world st' = w'" by simp_all
    with r Returned h show ?thesis
      by (simp add: initialize_database_result close_handle_def)
  next
    case (Raised e')
    with t w0 obtain pre' q' post' w1 where d: "build_sequence = pre' @ q' # post'"
      "engine_run E pre' w = Inr w1" "E q' w1 = Inl (e', world st')"
      by auto
    from d(2,3) have "engine_run E (pre' @ q' # post') w = Inl (e', world st')"
      by (simp add: engine_run_append)
    then have "engine_run E build_sequence w = Inl (e', world st')"
      unfolding d(1) .
    with ok show ?thesis by simp
  next
    case (SystemExit n)
    with t show ?thesis by simp
  qed
qed

text \<open>
  Claim C2. Whenever a string of the build sequence fails after the strings before it
  succeeded, \<^verbatim>\<open>initialize_database\<close> hands no later string to the server, logs the failure
  and the text of the failing string, re-raises the exception, and closes cursor and
  connection. When every string succeeds it returns after the whole sequence with cursor
  and connection closed. When the connection attempt fails it exits with status 1 before
  any string is executed. On every exit path, whatever the server does, a cursor that was
  opened is closed and a connection that was opened is closed: the cursor is closed
  unless the attempt failed, in which case it never existed, and the connection is
  closed unless \<^verbatim>\<open>psycopg2.connect\<close> itself failed.
\<close>

theorem initialize_database_fail_fast:
  assumes "build_sequence = pre @ q # post"
    and "engine_run E pre w = Inr w'" and "E q w' = Inl (e, w'')"
  shows "(\<exists>st l. initialize_database E Connects (new_initializer w) = (Raised e, st) \<and>
           executed st = pre @ [q] \<and> world st = w'' \<and>
           log st = l @ [ErrorFailedToExecute e, ErrorSQL q, ErrorInitializationFailed e] \<and>
           cursor st = Closed \<and> connection st = Closed) \<and>
         (\<forall>F v v'. engine_run F build_sequence v = Inr v' \<longrightarrow>
           (\<exists>st. initialize_database F Connects (new_initializer v) = (Returned, st) \<and>
              executed st = build_sequence \<and> world st = v' \<and>
              cursor st = Closed \<and> connection st = Closed)) \<and>
         (\<forall>F c v. c \<noteq> Connects \<longrightarrow>
           (\<exists>st. initialize_database F c (new_initializer v) = (SystemExit 1, st) \<and>
              executed st = [] \<and> world st = v \<and> cursor st = Unset \<and>
              connection st = (case c of ConnectRaises x \<Rightarrow> Unset | _ \<Rightarrow> Closed))) \<and>
         (\<forall>F c v.
            cursor (snd (initialize_database F c (new_initializer v))) =
              (if c = Connects then Closed else Unset) \<and>
            connection (snd (initialize_database F c (new_initializer v))) =
              (case c of ConnectRaises x \<Rightarrow> Unset | _ \<Rightarrow> Closed))"
proof (intro conjI allI impI)
  show "\<exists>st l. initialize_database E Connects (new_initializer w) = (Raised e, st) \<and>
           executed st = pre @ [q] \<and> world st = w'' \<and>
           log st = l @ [ErrorFailedToExecute e, ErrorSQL q, ErrorInitializationFailed e] \<and>
           cursor st = Closed \<and> connection st = Closed"
    by (rule initialize_database_Raised[OF assms])
next
  fix F :: "'b engine" and v v'
  assume "engine_run F build_sequence v = Inr v'"
  then show "\<exists>st. initialize_database F Connects (new_initializer v) = (Returned, st) \<and>
              executed st = build_sequence \<and> world st = v' \<and>
              cursor st = Closed \<and> connection st = Closed"
    by (rule initialize_database_Returned)
next
  fix F :: "'c engine" and c and v :: 'c
  assume "c \<noteq> Connects"
  then show "\<exists>st. initialize_database F c (new_initializer v) = (SystemExit 1, st) \<and>
              executed st = [] \<and> world st = v \<and> cursor st = Unset \<and>
              connection st = (case c of ConnectRaises x \<Rightarrow> Unset | _ \<Rightarrow> Closed)"
    by (rule initialize_database_not_connected)
next
  fix F :: "'d engine" and c and v :: 'd
  show "cursor (snd (initialize_database F c (new_initializer v))) =
              (if c = Connects then Closed else Unset)"
    using initialize_database_releases[of F c v] by (rule conjunct1)
next
  fix F :: "'d engine" and c and v :: 'd
  show "connection (snd (initialize_database F c (new_initializer v))) =
              (case c of ConnectRaises x \<Rightarrow> Unset | _ \<Rightarrow> Closed)"
    using initialize_database_releases[of F c v] by (rule conjunct2)
qed

lemma engine_run_count: "engine_run (\<lambda>q n. Inr (Suc n)) qs n = Inr (n + length qs)"
  by (induction qs arbitrary: n) simp_all

lemma length_build_sequence: "length build_sequence = 111"
  by (simp add: build_sequence_def tables_def indexes_def unique_indexes_def trigger_tables_def)

theorem initialize_database_fail_fast_witness:
  "build_sequence =
     (pgcrypto_sql # map (\<lambda>table. [DropTableIfExistsCascade table]) tables) @ tenants_sql #
     ([requirement_labels_sql, requirements_sql, testcases_sql, sections_sql,
      testcase_section_map_sql, mapping_sql, users_sql, tcm_integrations_sql, tcm_credentials_sql,
      tcm_testcase_mappings_sql, testrail_projects_sql, testrail_suites_sql, zephyr_projects_sql,
      xray_projects_sql, traceability_matrix_sql, plans_sql, subscriptions_sql, usage_sql] @
     map (\<lambda>(index_name, table, columns). [CreateIndex False index_name table columns None]) indexes @
     map (\<lambda>(index_name, table, columns, predicate).
            [CreateIndex True index_name table columns predicate]) unique_indexes @
     [trigger_function] @
     map (\<lambda>table. [CreateTrigger (''update_'' @ table @ ''_updated_at'') BEFORE UPDATE table
                      ''update_updated_at_column'']) trigger_tables @
     [cascade_fn, cascade_trigger, req_sections_view, default_tenant_sql, default_plans_sql]) \<and>
   engine_run (\<lambda>q n. if q = tenants_sql then Inl (DuplicateTable ''tenants'', n + 100) else Inr (Suc n))
     (pgcrypto_sql # map (\<lambda>table. [DropTableIfExistsCascade table]) tables) (0::nat) = Inr 20 \<and>
   (\<exists>st l. initialize_database
        (\<lambda>q n. if q = tenants_sql then Inl (DuplicateTable ''tenants'', n + 100) else Inr (Suc n))
        Connects (new_initializer (0::nat)) = (Raised (DuplicateTable ''tenants''), st) \<and>
      executed st = (pgcrypto_sql # map (\<lambda>table. [DropTableIfExistsCascade table]) tables) @ [tenants_sql] \<and>
      world st = 120 \<and>
      log st = l @ [ErrorFailedToExecute (DuplicateTable ''tenants''), ErrorSQL tenants_sql,
                    ErrorInitializationFailed (DuplicateTable ''tenants'')] \<and>
      cursor st = Closed \<and> connection st = Closed) \<and>
   engine_run (\<lambda>q n. Inr (Suc n)) build_sequence (0::nat) = Inr 111 \<and>
   (\<exists>st. initialize_database (\<lambda>q n. Inr (Suc n)) Connects (new_initializer (0::nat)) = (Returned, st) \<and>
      executed st = build_sequence \<and> world st = 111 \<and> cursor st = Closed \<and> connection st = Closed) \<and>
   (\<exists>st. initialize_database (\<lambda>q n. Inr (Suc n)) (CursorRaises OperationalError)
        (new_initializer (0::nat)) = (SystemExit 1, st) \<and>
      executed st = [] \<and> world st = 0 \<and> cursor st = Unset \<and> connection st = Closed)"
proof -
  let ?E = "\<lambda>q (n::nat). if q = tenants_sql then Inl (DuplicateTable ''tenants'', n + 100) else Inr (Suc n)"
  let ?pre = "pgcrypto_sql # map (\<lambda>table. [DropTableIfExistsCascade table]) tables"
  let ?post = "[requirement_labels_sql, requirements_sql, testcases_sql, sections_sql,
      testcase_section_map_sql, mapping_sql, users_sql, tcm_integrations_sql, tcm_credentials_sql,
      tcm_testcase_mappings_sql, testrail_projects_sql, testrail_suites_sql, zephyr_projects_sql,
      xray_projects_sql, traceability_matrix_sql, plans_sql, subscriptions_sql, usage_sql] @
     map (\<lambda>(index_name, table, columns). [CreateIndex False index_name table columns None]) indexes @
     map (\<lambda>(index_name, table, columns, predicate).
            [CreateIndex True index_name table columns predicate]) unique_indexes @
     [trigger_function] @
     map (\<lambda>table. [CreateTrigger (''update_'' @ table @ ''_updated_at'') BEFORE UPDATE table
                      ''update_updated_at_column'']) trigger_tables @
     [cascade_fn, cascade_trigger, req_sections_view, default_tenant_sql, default_plans_sql]"
  have h1: "build_sequence = ?pre @ tenants_sql # ?post"
    by (simp add: build_sequence_def)
  have h2: "engine_run ?E ?pre 0 = Inr 20"
    by (simp add: pgcrypto_sql_def tables_def tenants_sql_def)
  have h3: "?E tenants_sql 20 = Inl (DuplicateTable ''tenants'', 120)" by simp
  have h4: "engine_run (\<lambda>q n. Inr (Suc n)) build_sequence (0::nat) = Inr 111"
    by (simp add: engine_run_count length_build_sequence)
  have h5: "CursorRaises OperationalError \<noteq> Connects" by simp
  note t = initialize_database_fail_fast[OF h1 h2 h3]
  note t1 = t[THEN conjunct1]
  note t2 = t[THEN conjunct2, THEN conjunct1, rule_format, OF h4]
  note t3 = t[THEN conjunct2, THEN conjunct2, THEN conjunct1, rule_format, OF h5,
      of "\<lambda>q n. Inr (Suc n)" "0::nat"]
  have t3': "\<exists>st. initialize_database (\<lambda>q n. Inr (Suc n)) (CursorRaises OperationalError)
        (new_initializer (0::nat)) = (SystemExit 1, st) \<and>
      executed st = [] \<and> world st = 0 \<and> cursor st = Unset \<and> connection st = Closed"
    using t3 by simp
  show ?thesis by (rule conjI[OF h1 conjI[OF h2 conjI[OF t1 conjI[OF h4 conjI[OF t2 t3']]]]])
qed

lemma pg_execute_append:
  "pg_execute (ps @ qs) d = (case pg_execute ps d of Inl e \<Rightarrow> Inl e | Inr d' \<Rightarrow> pg_execute qs d')"
  by (induction ps arbitrary: d) (auto split: sum.splits)

lemma engine_run_server:
  "engine_run (server aborted) qs d = Inr d' \<longleftrightarrow> pg_execute (concat qs) d = Inr d'"
  by (induction qs arbitrary: d) (auto simp: server_def pg_execute_append split: sum.splits)

lemma pg_execute_ConsD:
  "pg_execute (s # ss) d = Inr d' \<Longrightarrow> \<exists>d1. exec s d = Inr d1 \<and> pg_execute ss d1 = Inr d'"
  by (cases "exec s d") simp_all

lemma pg_execute_appendD:
  "pg_execute (ps @ qs) d = Inr d' \<Longrightarrow> \<exists>d1. pg_execute ps d = Inr d1 \<and> pg_execute qs d1 = Inr d'"
  by (cases "pg_execute ps d") (simp_all add: pg_execute_append)

lemma pg_execute_appendI:
  "pg_execute ps d = Inr d1 \<Longrightarrow> pg_execute qs d1 = Inr d' \<Longrightarrow> pg_execute (ps @ qs) d = Inr d'"
  by (simp add: pg_execute_append)

lemma insert_row_fields:
  assumes "insert_row d t r = Inr d'"
  shows "relations d' = relations d" "routines d' = routines d" "extensions d' = extensions d"
    "nextval d' = nextval d" "uuid_source d' = uuid_source d" "uuid_drawn d' = uuid_drawn d"
    "rows d' = (rows d)(t := rows d t @ [r])"
  using assms by (auto simp: insert_row_def split: option.splits)

lemma advance_fields:
  "relations (advance d t cols g) = relations d" "routines (advance d t cols g) = routines d"
  "extensions (advance d t cols g) = extensions d" "rows (advance d t cols g) = rows d"
  "uuid_source (advance d t cols g) = uuid_source d"
  by (simp_all add: advance_def)

lemma insert_values_fields:
  assumes "insert_values t cs target rws d = Inr d'"
  shows "relations d' = relations d \<and> routines d' = routines d \<and> extensions d' = extensions d"
  using assms
proof (induction rws arbitrary: d)
  case Nil
  then show ?case by simp
next
  case (Cons vals rest)
  from Cons.prems obtain cols tcs ixs trgs where
    e: "fmlookup (relations d) t = Some (Table cols tcs ixs trgs)"
    by (auto split: option.splits relation.splits)
  let ?r = "form_tuple d t cols (zip cs vals)"
  let ?d1 = "advance d t cols (zip cs vals)"
  show ?case
  proof (cases "\<exists>r' \<in> set (rows ?d1 t). conflicts [target] None ?r r'")
    case True
    with Cons.prems e have "insert_values t cs target rest ?d1 = Inr d'"
      by (simp add: Let_def split: if_splits)
    from Cons.IH[OF this] show ?thesis by (simp add: advance_fields)
  next
    case False
    with Cons.prems e obtain d2 where i: "insert_row ?d1 t ?r = Inr d2"
      and r: "insert_values t cs target rest d2 = Inr d'"
      by (auto simp: Let_def split: if_splits sum.splits)
    from Cons.IH[OF r] insert_row_fields[OF i] show ?thesis by (simp add: advance_fields)
  qed
qed

lemma exec_lookup:
  assumes "exec st d = Inr d'" and "\<not> is_drop st"
  shows "fmlookup (relations d') n = touch n st (fmlookup (relations d) n)"
proof (cases st)
  case (InsertOnConflictDoNothing t cs rws target)
  with assms insert_values_fields[of t cs target rws d d'] show ?thesis by simp
next
  case (CreateIndex u i t cs w)
  with assms show ?thesis
    by (auto split: option.splits relation.splits if_splits)
next
  case (CreateOrReplaceView v q)
  with assms show ?thesis
    by (auto split: option.splits relation.splits if_splits list.splits)
qed (use assms in \<open>auto split: option.splits relation.splits if_splits list.splits\<close>)

lemma pg_execute_lookup:
  assumes "pg_execute ss d = Inr d'" and "\<forall>s \<in> set ss. \<not> is_drop s"
  shows "fmlookup (relations d') n = fold (touch n) ss (fmlookup (relations d) n)"
  using assms
proof (induction ss arbitrary: d)
  case Nil
  then show ?case by simp
next
  case (Cons s ss)
  from pg_execute_ConsD[OF Cons.prems(1)] obtain d1 where
    s: "exec s d = Inr d1" and r: "pg_execute ss d1 = Inr d'" by blast
  from Cons.prems(2) have nd: "\<not> is_drop s" "\<forall>s \<in> set ss. \<not> is_drop s" by simp_all
  from Cons.IH[OF r nd(2)] exec_lookup[OF s nd(1), of n] show ?case by simp
qed

lemma exec_routines:
  assumes "exec st d = Inr d'"
  shows "routines d' = (case st of CreateOrReplaceFunction f b \<Rightarrow> (routines d)(f \<mapsto> b) | _ \<Rightarrow> routines d)"
proof (cases st)
  case (InsertOnConflictDoNothing t cs rws target)
  with assms insert_values_fields[of t cs target rws d d'] show ?thesis by simp
qed (use assms in \<open>auto simp: drop_table_def split: option.splits relation.splits if_splits list.splits\<close>)

text \<open>
  The script against the modelled server: \<open>initialize\<close> is the state in which a run of
  \<^verbatim>\<open>initialize_database\<close> that returns leaves the server.
\<close>

lemma initialize_database_server:
  "initialize d = Inr d' \<longleftrightarrow>
   (\<exists>st. initialize_database (server aborted) Connects (new_initializer d) = (Returned, st) \<and>
         world st = d')"
proof
  assume "initialize d = Inr d'"
  then have "engine_run (server aborted) build_sequence d = Inr d'"
    by (simp add: engine_run_server initialize_def statements_def)
  from initialize_database_Returned[OF this] show
    "\<exists>st. initialize_database (server aborted) Connects (new_initializer d) = (Returned, st) \<and>
         world st = d'"
    by blast
next
  assume "\<exists>st. initialize_database (server aborted) Connects (new_initializer d) = (Returned, st) \<and>
         world st = d'"
  then obtain st where r: "initialize_database (server aborted) Connects (new_initializer d) = (Returned, st)"
    and w: "world st = d'" by blast
  show "initialize d = Inr d'"
  proof (cases "engine_run (server aborted) build_sequence d")
    case (Inr d'')
    from initialize_database_Returned[OF Inr] r w have "d'' = d'" by auto
    with Inr show ?thesis by (simp add: engine_run_server initialize_def statements_def)
  next
    case (Inl x)
    obtain e d1 where x: "x = (e, d1)" by (cases x)
    let ?st0 = "(new_initializer d)\<lparr>log := log (new_initializer d) @
      [Info ''Initializing database with versioning schema...'']\<rparr>"
    obtain out st' where t: "try_body (server aborted) Connects ?st0 = (out, st')"
      by (cases "try_body (server aborted) Connects ?st0")
    from r t have o: "out = Returned"
      by (simp add: initialize_database_result split: outcome.splits)
    from try_body_Connects[OF t] o have "engine_run (server aborted) build_sequence (world ?st0) = Inr (world st')"
      by simp
    with Inl show ?thesis by (simp add: new_initializer_def)
  qed
qed

lemmas sql_defs = tenants_sql_def requirement_labels_sql_def requirements_sql_def testcases_sql_def
  sections_sql_def testcase_section_map_sql_def mapping_sql_def users_sql_def tcm_integrations_sql_def
  tcm_credentials_sql_def tcm_testcase_mappings_sql_def testrail_projects_sql_def
  testrail_suites_sql_def zephyr_projects_sql_def xray_projects_sql_def traceability_matrix_sql_def
  plans_sql_def subscriptions_sql_def usage_sql_def

lemma creations_append: "creations (ps @ qs) = creations ps @ creations qs"
  by (induction ps rule: creations.induct) simp_all

lemma creations_none: "\<forall>s \<in> set ss. (case s of CreateTable t cols tcs \<Rightarrow> False | _ \<Rightarrow> True) \<Longrightarrow> creations ss = []"
  by (induction ss rule: creations.induct) simp_all

lemma creations_concat_map:
  "(\<And>x. creations (f x) = []) \<Longrightarrow> creations (concat (map f xs)) = []"
  by (induction xs) (simp_all add: creations_append)

lemma creations_map:
  "(\<And>x. creations [g x] = []) \<Longrightarrow> creations (map g xs) = []"
proof (induction xs)
  case Nil
  show ?case by simp
next
  case (Cons x xs)
  have "creations (map g (x # xs)) = creations ([g x] @ map g xs)" by simp
  also have "\<dots> = []" unfolding creations_append using Cons by simp
  finally show ?case .
qed

lemma creations_map_index:
  "creations (map (\<lambda>p. CreateIndex (u p) (a p) (b p) (c p) (d p)) xs) = []"
  by (rule creations_map) simp

lemma creations_map_trigger:
  "creations (map (\<lambda>p. CreateTrigger (a p) (b p) (c p) (d p) (e p)) xs) = []"
  by (rule creations_map) simp

lemma creations_map_drop:
  "creations (map (\<lambda>p. DropTableIfExistsCascade (a p)) xs) = []"
  by (rule creations_map) simp

lemma creations_statements: "creations statements = table_defs"
proof -
  have e: "creations (pgcrypto_sql) = []" "creations trigger_function = []" "creations cascade_fn = []"
    "creations cascade_trigger = []" "creations req_sections_view = []"
    "creations default_tenant_sql = []" "creations default_plans_sql = []"
    by (simp_all add: pgcrypto_sql_def trigger_function_def cascade_fn_def cascade_trigger_def
        req_sections_view_def default_tenant_sql_def default_plans_sql_def)
  show ?thesis
    unfolding statements_def build_sequence_def table_defs_def
    by (simp add: creations_append creations_map_index creations_map_trigger creations_map_drop
          split_def e del: creations.simps)
qed

lemma table_defs_names:
  "map fst table_defs = [''tenants'', ''requirement_labels'', ''requirements'', ''testcases'',
     ''sections'', ''testcase_section_map'', ''requirement_testcase_map'', ''users'',
     ''tcm_integrations'', ''tcm_credentials'', ''tcm_testcase_mappings'', ''testrail_projects'',
     ''testrail_suites'', ''zephyr_projects'', ''xray_projects'', ''traceability_matrix'', ''plans'',
     ''subscriptions'', ''usage'']"
  by (simp add: table_defs_def sql_defs)

lemma fk_resolves_table_defs: "fk_resolves True [] table_defs"
  apply (simp add: table_defs_def sql_defs foreign_keys_def column_names_def)
  apply (simp add: unique_keys_def)
  done

subsection \<open>The order in which the tables are created\<close>

lemma creation_order:
  "map fst (creations statements) = [''tenants'', ''requirement_labels'', ''requirements'', ''testcases'',
     ''sections'', ''testcase_section_map'', ''requirement_testcase_map'', ''users'',
     ''tcm_integrations'', ''tcm_credentials'', ''tcm_testcase_mappings'', ''testrail_projects'',
     ''testrail_suites'', ''zephyr_projects'', ''xray_projects'', ''traceability_matrix'', ''plans'',
     ''subscriptions'', ''usage'']"
  by (simp only: creations_statements table_defs_names)

lemma not_follows_tiers: "\<not> follows_tiers spec_tiers (map fst (creations statements))"
  unfolding creation_order by (simp add: follows_tiers_def spec_tiers_def)

lemma self_reference: "\<not> fk_resolves False [] (creations statements)"
  unfolding creations_statements
  by (simp add: table_defs_def sql_defs foreign_keys_def column_names_def)

text \<open>
  Claim C7, as stated, fails twice. The script creates \<^verbatim>\<open>users\<close>, \<^verbatim>\<open>tcm_integrations\<close> and
  \<^verbatim>\<open>tcm_credentials\<close> after \<^verbatim>\<open>requirements\<close>, \<^verbatim>\<open>testcases\<close>, \<^verbatim>\<open>sections\<close> and the two map
  tables, which is not the order of the tiers of section 2 of the specification; and the
  foreign key \<^verbatim>\<open>derived_from_row_id\<close> of \<^verbatim>\<open>testcases\<close> references \<^verbatim>\<open>testcases\<close> itself, a table
  that no earlier statement has created.
\<close>

theorem creation_order_counterexample:
  "\<not> follows_tiers spec_tiers (map fst (creations statements)) \<and>
   \<not> fk_resolves False [] (creations statements)"
  using not_follows_tiers self_reference by (rule conjI)

text \<open>
  Claim C7, amended: the tables are created in the order of the calls of
  \<^verbatim>\<open>initialize_database\<close>, and in that order every foreign key declared by a
  \<^verbatim>\<open>CREATE TABLE\<close> statement has its columns in its own table and references a primary key
  or unique constraint, on exactly the referenced column list, of a table created by an
  earlier statement or of the table being created.
\<close>

theorem foreign_keys_resolve:
  "map fst (creations statements) = [''tenants'', ''requirement_labels'', ''requirements'', ''testcases'',
     ''sections'', ''testcase_section_map'', ''requirement_testcase_map'', ''users'',
     ''tcm_integrations'', ''tcm_credentials'', ''tcm_testcase_mappings'', ''testrail_projects'',
     ''testrail_suites'', ''zephyr_projects'', ''xray_projects'', ''traceability_matrix'', ''plans'',
     ''subscriptions'', ''usage''] \<and>
   fk_resolves True [] (creations statements)"
proof
  show "fk_resolves True [] (creations statements)"
    unfolding creations_statements by (rule fk_resolves_table_defs)
qed (rule creation_order)

end
